theory Spec2Isabelle
  imports Complex_Main
begin

section \<open>Data model of the Lightning-Kokkos simulator\<close>

text \<open>
  The embedding follows \<^verbatim>\<open>LightningKokkosSimulator.cpp\<close>. Conventions:
  \<^item> \<^verbatim>\<open>size_t\<close> values are natural numbers; where the source adds or multiplies
    sizes the wrap-around modulo \<open>2 ^ 64\<close> is written out;
  \<^item> \<^verbatim>\<open>QubitIdType\<close> and \<^verbatim>\<open>ObsIdType\<close> (both \<^verbatim>\<open>intptr_t\<close>) are integers;
  \<^item> a \<^verbatim>\<open>double\<close> is a real number, and an amplitude is a complex number or
    \<open>None\<close>, which stands for the IEEE-754 value NaN (infinities and rounding are not
    modelled);
  \<^item> a failing \<^verbatim>\<open>RT_FAIL_IF\<close> or \<^verbatim>\<open>RT_ASSERT\<close> is the value \<open>Inl e\<close>, where \<open>e\<close> names
    the error kind of the specification (section 7) and carries the message of the
    source; a failure inside a class that the source file only calls carries the name of
    the error kind instead;
  \<^item> the numerical kernels of the state-vector library (gate application, probabilities,
    sampling, adjoint Jacobian) and the random draw are parameters of the functions that
    call them.
\<close>

type_synonym QubitIdType = int
type_synonym ObsIdType = int

datatype error =
    AlreadyRecording string
  | NotRecording string
  | UnsupportedOperation string
  | InvalidArity string
  | InvalidQubit string
  | InvalidWires string
  | InvalidObservableKey string
  | SizeMismatch string
  | UnsupportedMeasurement string
  | AssertionFailure string
  | DegenerateRenormalization
  | KernelFailure
  | UndefinedBehaviour string

text \<open>\<^verbatim>\<open>SIZE_MAX + 1\<close> of the 64-bit target.\<close>

definition size_t_range :: nat where
  "size_t_range = 2 ^ 64"

subsection \<open>State vector\<close>

text \<open>
  Modelled from the spec: \<^verbatim>\<open>StateVectorT\<close> is a class of the state-vector library and not
  part of the source file. Following section 3 of the specification it is the qubit count
  \<open>n\<close> with the ordered sequence of the \<open>2 ^ n\<close> amplitudes.
\<close>

record StateVectorT =
  sv_num_qubits :: nat
  data :: "complex option list"


text \<open>The binary logarithm of a size, rounded down.\<close>

fun log2 :: "nat \<Rightarrow> nat" where
  "log2 n = (if n < 2 then 0 else Suc (log2 (n div 2)))"

declare log2.simps [simp del]

text \<open>
  Modelled from the spec: the constructor \<^verbatim>\<open>StateVectorT(ptr, size)\<close>, the \<open>ReplaceWith\<close> of
  section 4.2 of the specification: it copies \<open>size\<close> amplitudes, for \<open>log2 size\<close> qubits.
\<close>

definition StateVectorT_host :: "complex option list \<Rightarrow> nat \<Rightarrow> StateVectorT" where
  "StateVectorT_host state vec_size = \<lparr>sv_num_qubits = log2 vec_size, data = take vec_size state\<rparr>"

text \<open>Modelled from the spec: \<^verbatim>\<open>StateVectorT::getNumQubits\<close> reads the qubit count.\<close>

definition getNumQubits :: "StateVectorT \<Rightarrow> nat" where
  "getNumQubits sv = sv_num_qubits sv"

subsection \<open>Qubit manager\<close>

text \<open>
  Modelled from the spec: the class \<^verbatim>\<open>QubitManager\<close> is not part of the source file.
  Following sections 3 and 4.1 of the specification, it maps the live qubit ids to device
  wires and issues ids from a counter that is never reset, so that ids are fresh and
  never reused.
\<close>

record QubitManager =
  next_idx :: QubitIdType
  qubits_map :: "QubitIdType \<rightharpoonup> nat"







text \<open>
  Modelled from the spec: \<^verbatim>\<open>QubitManager::isValidQubitId\<close> holds for the ids that are
  currently allocated.
\<close>

definition isValidQubitId :: "QubitManager \<Rightarrow> QubitIdType \<Rightarrow> bool" where
  "isValidQubitId qm q = (qubits_map qm q \<noteq> None)"

text \<open>
  Modelled from the spec: \<^verbatim>\<open>QubitManager::getDeviceId\<close> gives the wire of an id and fails
  with InvalidQubit for an id that is not currently allocated (section 4.1).
\<close>

definition getDeviceId :: "QubitManager \<Rightarrow> QubitIdType \<Rightarrow> error + nat" where
  "getDeviceId qm q =
     (case qubits_map qm q of
        None \<Rightarrow> Inl (InvalidQubit ''InvalidQubit'')
      | Some w \<Rightarrow> Inr w)"

subsection \<open>Operation tape\<close>

text \<open>
  Modelled from the spec: the enumeration \<^verbatim>\<open>MeasurementsT\<close> is not part of the source
  file; section 3 of the specification gives the measurement kinds Expval and Var.
\<close>

datatype MeasurementsT = MeasurementsT_Expval | MeasurementsT_Var

text \<open>
  Modelled from the spec: the class \<^verbatim>\<open>CacheManager\<close> is not part of the source file.
  Following sections 3 and 4.4 of the specification, the tape is the ordered sequence of
  the recorded operations (name, parameters, device wires, inverse flag) and the ordered
  sequence of the recorded observable uses (key, measurement kind). The fields are the
  sequences read by the getters that the source calls.
\<close>

record CacheManager =
  ops_names :: "string list"
  ops_params :: "real list list"
  ops_wires :: "nat list list"
  ops_inverses :: "bool list"
  obs_keys :: "ObsIdType list"
  obs_callees :: "MeasurementsT list"

text \<open>Modelled from the spec: \<^verbatim>\<open>CacheManager::Reset\<close> clears all entries (section 4.4).\<close>

definition Reset :: "CacheManager \<Rightarrow> CacheManager" where
  "Reset c = \<lparr>ops_names = [], ops_params = [], ops_wires = [], ops_inverses = [],
              obs_keys = [], obs_callees = []\<rparr>"

text \<open>
  Modelled from the spec: \<^verbatim>\<open>CacheManager::addOperation\<close> appends one operation entry
  (section 4.4).
\<close>

definition addOperation ::
  "string \<Rightarrow> real list \<Rightarrow> nat list \<Rightarrow> bool \<Rightarrow> CacheManager \<Rightarrow> CacheManager" where
  "addOperation name params dev_wires inv_flag c =
     c\<lparr>ops_names := ops_names c @ [name],
       ops_params := ops_params c @ [params],
       ops_wires := ops_wires c @ [dev_wires],
       ops_inverses := ops_inverses c @ [inv_flag]\<rparr>"

text \<open>
  Modelled from the spec: \<^verbatim>\<open>CacheManager::addObservable\<close> appends one observable use
  (section 4.4).
\<close>

definition addObservable :: "ObsIdType \<Rightarrow> MeasurementsT \<Rightarrow> CacheManager \<Rightarrow> CacheManager" where
  "addObservable obsKey callee c =
     c\<lparr>obs_keys := obs_keys c @ [obsKey], obs_callees := obs_callees c @ [callee]\<rparr>"

text \<open>
  Modelled from the spec: \<^verbatim>\<open>CacheManager::getNumOperations\<close>, the operation count of
  \<open>Info\<close> (section 4.4).
\<close>

definition getNumOperations :: "CacheManager \<Rightarrow> nat" where
  "getNumOperations c = length (ops_names c)"

text \<open>
  Modelled from the spec: \<^verbatim>\<open>CacheManager::getNumObservables\<close>, the observable count of
  \<open>Info\<close> (section 4.4).
\<close>

definition getNumObservables :: "CacheManager \<Rightarrow> nat" where
  "getNumObservables c = length (obs_keys c)"

text \<open>
  Modelled from the spec: \<^verbatim>\<open>CacheManager::getNumParams\<close>, the parameter count of \<open>Info\<close>:
  the number of parameters present in the recorded operations (sections 4.4 and 4.7).
\<close>

definition getNumParams :: "CacheManager \<Rightarrow> nat" where
  "getNumParams c = sum_list (map length (ops_params c))"

subsection \<open>Simulator state\<close>

text \<open>
  The members of \<^verbatim>\<open>LightningKokkosSimulator\<close> that the source file uses. Modelled from the
  spec: the class \<^verbatim>\<open>ObsManager\<close> is not part of the source file; following section 4.3 of
  the specification the registry is kept as the list of the keys that it has issued.
\<close>

record LightningKokkosSimulator =
  device_sv :: StateVectorT
  qubit_manager :: QubitManager
  cache_manager :: CacheManager
  obs_manager :: "ObsIdType list"
  tape_recording :: bool
  device_shots :: nat

text \<open>
  Modelled from the spec: \<^verbatim>\<open>ObsManager::isValidObservables\<close>, the \<open>Validate\<close> of section
  4.3: every key is a key that the registry has issued.
\<close>

definition isValidObservables :: "ObsIdType list \<Rightarrow> ObsIdType list \<Rightarrow> bool" where
  "isValidObservables om keys = list_all (\<lambda>k. k \<in> set om) keys"

section \<open>Qubit allocation\<close>

definition GetNumQubits :: "LightningKokkosSimulator \<Rightarrow> nat" where
  "GetNumQubits s = getNumQubits (device_sv s)"






section \<open>Wire translation\<close>

text \<open>
  Modelled from the spec: the loop of \<^verbatim>\<open>getDeviceWires\<close>, a member defined in the header,
  which is not part of the source file. Following section 4.1 of the specification,
  \<open>DeviceWires\<close> translates each id to its wire, in order, and fails with InvalidQubit on
  an id that is not currently allocated.
\<close>

fun getDeviceIds :: "QubitManager \<Rightarrow> QubitIdType list \<Rightarrow> error + nat list" where
  "getDeviceIds qm [] = Inr []"
| "getDeviceIds qm (w # ws) =
     (case getDeviceId qm w of
        Inl e \<Rightarrow> Inl e
      | Inr d \<Rightarrow> (case getDeviceIds qm ws of Inl e \<Rightarrow> Inl e | Inr ds \<Rightarrow> Inr (d # ds)))"

text \<open>
  Modelled from the spec: \<^verbatim>\<open>getDeviceWires\<close> (header, not part of the source file), the
  \<open>DeviceWires\<close> of section 4.1 on the simulator's qubit manager.
\<close>

definition getDeviceWires :: "LightningKokkosSimulator \<Rightarrow> QubitIdType list \<Rightarrow> error + nat list" where
  "getDeviceWires s wires = getDeviceIds (qubit_manager s) wires"

text \<open>
  Modelled from the spec: \<^verbatim>\<open>isValidQubits\<close> (header, not part of the source file): every
  id of the list references a currently allocated qubit (section 4.3).
\<close>

definition isValidQubits :: "LightningKokkosSimulator \<Rightarrow> QubitIdType list \<Rightarrow> bool" where
  "isValidQubits s wires = list_all (isValidQubitId (qubit_manager s)) wires"

section \<open>Operations\<close>

text \<open>
  Modelled from the spec: \<^verbatim>\<open>Lightning::lookup_gates\<close> is not part of the source file; the
  gate table \<^verbatim>\<open>simulator_gate_info\<close> is a parameter. Following section 6 of the
  specification, the lookup returns the wire arity and the parameter arity declared for
  the name, or fails when the name is not in the table.
\<close>

definition lookup_gates :: "(string \<times> nat \<times> nat) list \<Rightarrow> string \<Rightarrow> error + nat \<times> nat" where
  "lookup_gates simulator_gate_info name =
     (case map_of simulator_gate_info name of
        None \<Rightarrow> Inl (UnsupportedOperation ''UnknownGate'')
      | Some arity \<Rightarrow> Inr arity)"

text \<open>
  The kernel \<^verbatim>\<open>applyOperation\<close> of the state-vector library is the parameter
  \<open>applyOperation\<close>; it yields the new state vector, or \<open>None\<close> when it throws.
\<close>

definition NamedOperation ::
  "(string \<times> nat \<times> nat) list \<Rightarrow>
   (string \<Rightarrow> nat list \<Rightarrow> bool \<Rightarrow> real list \<Rightarrow> StateVectorT \<Rightarrow> StateVectorT option) \<Rightarrow>
   string \<Rightarrow> real list \<Rightarrow> QubitIdType list \<Rightarrow> bool \<Rightarrow>
   LightningKokkosSimulator \<Rightarrow> error + LightningKokkosSimulator" where
  "NamedOperation simulator_gate_info applyOperation name params wires inv_flag s =
     (case lookup_gates simulator_gate_info name of
        Inl e \<Rightarrow> Inl e
      | Inr (op_num_wires, op_num_params) \<Rightarrow>
          if length wires = 0 \<and> length wires \<noteq> op_num_wires
          then Inl (InvalidArity ''Invalid number of qubits'')
          else if length params \<noteq> op_num_params
          then Inl (InvalidArity ''Invalid number of parameters'')
          else
            (case getDeviceWires s wires of
               Inl e \<Rightarrow> Inl e
             | Inr dev_wires \<Rightarrow>
                 (case applyOperation name dev_wires inv_flag params (device_sv s) of
                    None \<Rightarrow> Inl KernelFailure
                  | Some sv \<Rightarrow>
                      Inr (s\<lparr>device_sv := sv,
                             cache_manager :=
                               (if tape_recording s
                                then addOperation name params dev_wires inv_flag (cache_manager s)
                                else cache_manager s)\<rparr>))))"

text \<open>
  The kernel \<^verbatim>\<open>applyMultiQubitOp\<close> is the parameter \<open>applyMultiQubitOp\<close>. The copy of
  the matrix into a device view does not change its entries.
\<close>

definition MatrixOperation ::
  "(complex list \<Rightarrow> nat list \<Rightarrow> bool \<Rightarrow> StateVectorT \<Rightarrow> StateVectorT option) \<Rightarrow>
   complex list \<Rightarrow> QubitIdType list \<Rightarrow> bool \<Rightarrow>
   LightningKokkosSimulator \<Rightarrow> error + LightningKokkosSimulator" where
  "MatrixOperation applyMultiQubitOp matrix wires inv_flag s =
     (if length wires = 0 then Inl (InvalidArity ''Invalid number of qubits'')
      else
        (case getDeviceWires s wires of
           Inl e \<Rightarrow> Inl e
         | Inr dev_wires \<Rightarrow>
             (case applyMultiQubitOp matrix dev_wires inv_flag (device_sv s) of
                None \<Rightarrow> Inl KernelFailure
              | Some sv \<Rightarrow>
                  Inr (s\<lparr>device_sv := sv,
                         cache_manager :=
                           (if tape_recording s
                            then addOperation ''MatrixOp'' [] dev_wires inv_flag (cache_manager s)
                            else cache_manager s)\<rparr>))))"

section \<open>Measurements\<close>

text \<open>
  The class \<^verbatim>\<open>Measurements\<close> of the state-vector library, constructed on the current state
  vector: its methods are the fields of a record of kernels. An observable is passed to
  them by its key. \<^verbatim>\<open>generate_samples\<close> returns \<open>shots * qubits\<close> entries, one bit per
  qubit and shot, shot by shot.
\<close>

record Measurements =
  m_expval :: "ObsIdType \<Rightarrow> StateVectorT \<Rightarrow> real"
  m_expval_shots :: "ObsIdType \<Rightarrow> nat \<Rightarrow> StateVectorT \<Rightarrow> real"
  m_var :: "ObsIdType \<Rightarrow> StateVectorT \<Rightarrow> real"
  m_var_shots :: "ObsIdType \<Rightarrow> nat \<Rightarrow> StateVectorT \<Rightarrow> real"
  m_probs :: "nat list \<Rightarrow> StateVectorT \<Rightarrow> real list"
  m_probs_shots :: "nat list \<Rightarrow> nat \<Rightarrow> StateVectorT \<Rightarrow> real list"
  m_generate_samples :: "nat \<Rightarrow> StateVectorT \<Rightarrow> nat list"

definition Expval ::
  "Measurements \<Rightarrow> ObsIdType \<Rightarrow> LightningKokkosSimulator \<Rightarrow> error + real \<times> LightningKokkosSimulator" where
  "Expval m obsKey s =
     (if \<not> isValidObservables (obs_manager s) [obsKey]
      then Inl (InvalidObservableKey ''Invalid key for cached observables'')
      else
        let s' = (if tape_recording s
                  then s\<lparr>cache_manager := addObservable obsKey MeasurementsT_Expval (cache_manager s)\<rparr>
                  else s)
        in Inr (if device_shots s \<noteq> 0 then m_expval_shots m obsKey (device_shots s) (device_sv s)
                else m_expval m obsKey (device_sv s), s'))"

definition Var ::
  "Measurements \<Rightarrow> ObsIdType \<Rightarrow> LightningKokkosSimulator \<Rightarrow> error + real \<times> LightningKokkosSimulator" where
  "Var m obsKey s =
     (if \<not> isValidObservables (obs_manager s) [obsKey]
      then Inl (InvalidObservableKey ''Invalid key for cached observables'')
      else
        let s' = (if tape_recording s
                  then s\<lparr>cache_manager := addObservable obsKey MeasurementsT_Var (cache_manager s)\<rparr>
                  else s)
        in Inr (if device_shots s \<noteq> 0 then m_var_shots m obsKey (device_shots s) (device_sv s)
                else m_var m obsKey (device_sv s), s'))"

text \<open>
  \<open>PartialProbs\<close> takes the size of the caller's buffer and returns its new contents.
\<close>

definition PartialProbs ::
  "Measurements \<Rightarrow> nat \<Rightarrow> QubitIdType list \<Rightarrow> LightningKokkosSimulator \<Rightarrow> error + real list" where
  "PartialProbs m probs_size wires s =
     (let numWires = length wires;
          numQubits = GetNumQubits s
      in if numWires > numQubits then Inl (InvalidWires ''Invalid number of wires'')
         else if \<not> isValidQubits s wires then Inl (InvalidWires ''Invalid given wires to measure'')
         else
           (case getDeviceWires s wires of
              Inl e \<Rightarrow> Inl e
            | Inr dev_wires \<Rightarrow>
                let dv_probs = (if device_shots s \<noteq> 0
                                then m_probs_shots m dev_wires (device_shots s) (device_sv s)
                                else m_probs m dev_wires (device_sv s))
                in if probs_size \<noteq> length dv_probs
                   then Inl (SizeMismatch ''Invalid size for the pre-allocated partial-probabilities'')
                   else Inr dv_probs))"

subsection \<open>Counts\<close>

text \<open>
  \<^verbatim>\<open>std::bitset::to_ulong\<close>: the bit at position \<open>i\<close> has weight \<open>2 ^ i\<close>. The list holds
  the bits by position, position 0 first.
\<close>

fun to_ulong :: "bool list \<Rightarrow> nat" where
  "to_ulong [] = 0"
| "to_ulong (b # bs) = (if b then 1 else 0) + 2 * to_ulong bs"

text \<open>
  One round of the loop over the shots: the bits of the shot are stored at the positions
  \<open>0, 1, ...\<close> of \<open>basisState\<close> in the order of \<open>wires\<close>, and the bin of its value is
  incremented.
\<close>

definition count_shot :: "nat list \<Rightarrow> nat \<Rightarrow> nat list \<Rightarrow> int list \<Rightarrow> nat \<Rightarrow> int list" where
  "count_shot li_samples numQubits wires counts shot =
     (let basisState = map (\<lambda>wire. li_samples ! (shot * numQubits + wire) \<noteq> 0) wires;
          bin = to_ulong basisState
      in counts[bin := counts ! bin + 1])"

text \<open>
  \<open>Counts\<close> and \<open>PartialCounts\<close> take the caller's two buffers and return their new
  contents. \<^verbatim>\<open>1U << n\<close> is a shift of a 32-bit unsigned value, undefined for \<open>n \<ge> 32\<close>.
\<close>

definition Counts ::
  "Measurements \<Rightarrow> real list \<Rightarrow> int list \<Rightarrow> nat \<Rightarrow> LightningKokkosSimulator \<Rightarrow>
   error + real list \<times> int list" where
  "Counts m eigvals counts shots s =
     (let numQubits = GetNumQubits s
      in if 32 \<le> numQubits then Inl (UndefinedBehaviour ''1U << numQubits'')
         else
           let numElements = 2 ^ numQubits
           in if length eigvals \<noteq> numElements \<or> length counts \<noteq> numElements
              then Inl (SizeMismatch ''Invalid size for the pre-allocated counts'')
              else
                let li_samples = m_generate_samples m shots (device_sv s);
                    eigvals' = map real [0..<length eigvals];
                    counts' = replicate (length counts) 0
                in Inr (eigvals',
                        foldl (count_shot li_samples numQubits [0..<numQubits]) counts' [0..<shots]))"

definition PartialCounts ::
  "Measurements \<Rightarrow> real list \<Rightarrow> int list \<Rightarrow> QubitIdType list \<Rightarrow> nat \<Rightarrow>
   LightningKokkosSimulator \<Rightarrow> error + real list \<times> int list" where
  "PartialCounts m eigvals counts wires shots s =
     (let numWires = length wires;
          numQubits = GetNumQubits s
      in if 32 \<le> numWires then Inl (UndefinedBehaviour ''1U << numWires'')
         else
           let numElements = 2 ^ numWires
           in if numWires > numQubits then Inl (InvalidWires ''Invalid number of wires'')
              else if \<not> isValidQubits s wires
              then Inl (InvalidWires ''Invalid given wires to measure'')
              else if length eigvals \<noteq> numElements \<or> length counts \<noteq> numElements
              then Inl (SizeMismatch ''Invalid size for the pre-allocated partial-counts'')
              else
                (case getDeviceWires s wires of
                   Inl e \<Rightarrow> Inl e
                 | Inr dev_wires \<Rightarrow>
                     let li_samples = m_generate_samples m shots (device_sv s);
                         eigvals' = map real [0..<length eigvals];
                         counts' = replicate (length counts) 0
                     in Inr (eigvals',
                             foldl (count_shot li_samples numQubits dev_wires) counts' [0..<shots])))"

section \<open>Collapse of one qubit\<close>

text \<open>
  \<^verbatim>\<open>Zero()\<close> and \<^verbatim>\<open>One()\<close> return the addresses of the global constants \<open>false\<close> and
  \<open>true\<close>; a \<^verbatim>\<open>Result\<close> is modelled as the truth value it points to.
\<close>

type_synonym Result = bool

definition Zero_Result :: Result where
  "Zero_Result = False"

definition One_Result :: Result where
  "One_Result = True"

text \<open>
  The indices zeroed by the two nested loops of \<open>Measure\<close>, in the order of the loops. For
  a wire of the register the stride, the section size and its half are exact powers of
  two. For a wire beyond the register the unsigned difference wraps, \<^verbatim>\<open>pow\<close> overflows
  to infinity and the half section size is zero, so that the loops do not run.
\<close>

definition Measure_zeroed :: "nat \<Rightarrow> nat \<Rightarrow> nat \<Rightarrow> nat list" where
  "Measure_zeroed num_qubits wire k =
     (if wire < num_qubits then
        let stride = 2 ^ (num_qubits - (1 + wire));
            vec_size = 2 ^ num_qubits;
            section_size = vec_size div stride;
            half_section_size = section_size div 2
        in concat (map (\<lambda>idx. map (\<lambda>ids. stride * (k + 2 * idx) + ids) [0..<stride])
                     [0..<half_section_size])
      else [])"

text \<open>The two nested loops: the amplitudes at these indices are set to zero.\<close>

definition Measure_collapse :: "nat \<Rightarrow> nat \<Rightarrow> nat \<Rightarrow> complex option list \<Rightarrow> complex option list" where
  "Measure_collapse num_qubits wire k state =
     foldl (\<lambda>st v. st[v := Some 0]) state (Measure_zeroed num_qubits wire k)"

text \<open>
  The sum of \<^verbatim>\<open>real(c * conj(c))\<close> over the amplitudes, from \<open>0.0\<close>; a NaN amplitude makes
  the sum NaN.
\<close>

definition Measure_total :: "complex option list \<Rightarrow> real option" where
  "Measure_total state =
     foldl (\<lambda>sum c. case (sum, c) of
                       (Some t, Some z) \<Rightarrow> Some (t + Re (z * cnj z))
                     | _ \<Rightarrow> None)
       (Some 0) state"

text \<open>
  \<^verbatim>\<open>elem /= norm\<close>. The norm is zero only when every amplitude is zero, and then the
  division is \<open>0.0 / 0.0\<close>, which is NaN; the source divides without looking at the norm.
\<close>

definition Measure_divide :: "real option \<Rightarrow> complex option \<Rightarrow> complex option" where
  "Measure_divide nrm elem =
     (case (elem, nrm) of
        (Some z, Some r) \<Rightarrow> if r = 0 then None else Some (z / complex_of_real r)
      | _ \<Rightarrow> None)"

text \<open>
  \<open>Measure\<close> takes the value \<open>draw\<close> of the random draw (after its conversion to
  \<^verbatim>\<open>float\<close>) as a parameter.
\<close>

definition Measure ::
  "Measurements \<Rightarrow> real \<Rightarrow> QubitIdType \<Rightarrow> LightningKokkosSimulator \<Rightarrow>
   error + Result \<times> LightningKokkosSimulator" where
  "Measure m draw wire s =
     (let wires = [wire]
      in case PartialProbs m (2 ^ length wires) wires s of
           Inl e \<Rightarrow> Inl e
         | Inr probs \<Rightarrow>
             let mres = (draw > probs ! 0);
                 num_qubits = GetNumQubits s
             in (case getDeviceWires s wires of
                   Inl e \<Rightarrow> Inl e
                 | Inr dev_wires \<Rightarrow>
                     let vec_size = 2 ^ num_qubits;
                         state = data (device_sv s);
                         k = (if mres then 0 else 1);
                         state = Measure_collapse num_qubits (dev_wires ! 0) k state;
                         total = Measure_total state;
                         nrm = map_option sqrt total;
                         state = map (Measure_divide nrm) state
                     in Inr (if mres then One_Result else Zero_Result,
                             s\<lparr>device_sv := StateVectorT_host state vec_size\<rparr>)))"

text \<open>
  The conversion of \<^verbatim>\<open>float draw = dis(gen)\<close>: the drawn \<^verbatim>\<open>double\<close> is rounded to the nearest
  single-precision value, ties to even. Single precision has 24 significant bits; its
  exponents reach down to \<open>-126\<close>, below which the spacing of the values stays
  \<open>2 ^ -149\<close>. A draw lies in \<open>[0, 1)\<close>, so overflow does not occur.
\<close>

definition round_ties_even :: "real \<Rightarrow> int" where
  "round_ties_even q =
     (let f = \<lfloor>q\<rfloor>;
          r = q - of_int f
      in if r < 1 / 2 then f else if 1 / 2 < r then f + 1 else if even f then f else f + 1)"

definition float_of_double :: "real \<Rightarrow> real" where
  "float_of_double x =
     (if x = 0 then 0
      else
        let e = max \<lfloor>log 2 \<bar>x\<bar>\<rfloor> (- 126);
            ulp = 2 powr (of_int e - 23)
        in of_int (round_ties_even (x / ulp)) * ulp)"

text \<open>
  \<open>Measure\<close> with the value \<open>u\<close> that the uniform distribution returns as a parameter.
\<close>

definition Measure_drawn ::
  "Measurements \<Rightarrow> real \<Rightarrow> QubitIdType \<Rightarrow> LightningKokkosSimulator \<Rightarrow>
   error + Result \<times> LightningKokkosSimulator" where
  "Measure_drawn m u wire s = Measure m (float_of_double u) wire s"

section \<open>Adjoint gradient\<close>

text \<open>
  The arguments that \<open>Gradient\<close> hands to the adjoint kernel: \<^verbatim>\<open>JacobianData\<close> built from
  the parameter count, the amplitudes, the observables in recorded order, the recorded
  operations (\<^verbatim>\<open>OpsData\<close>) and the trainable parameters.
\<close>

record JacobianData =
  jd_num_params :: nat
  jd_state :: "complex option list"
  jd_observables :: "ObsIdType list"
  jd_ops_names :: "string list"
  jd_ops_params :: "real list list"
  jd_ops_wires :: "nat list list"
  jd_ops_inverses :: "bool list"
  jd_trainable :: "nat list"

definition Gradient_num_train_params :: "LightningKokkosSimulator \<Rightarrow> nat list \<Rightarrow> nat" where
  "Gradient_num_train_params s trainParams =
     (if trainParams = [] then getNumParams (cache_manager s) else length trainParams)"

definition Gradient_jac_size :: "LightningKokkosSimulator \<Rightarrow> nat list \<Rightarrow> nat" where
  "Gradient_jac_size s trainParams =
     (Gradient_num_train_params s trainParams * getNumObservables (cache_manager s))
       mod size_t_range"

definition Gradient_tape :: "LightningKokkosSimulator \<Rightarrow> nat list \<Rightarrow> JacobianData" where
  "Gradient_tape s trainParams =
     (let tp_empty = (trainParams = []);
          num_params = getNumParams (cache_manager s);
          all_params = (if tp_empty then [0..<num_params] else [])
      in \<lparr>jd_num_params = num_params,
          jd_state = data (device_sv s),
          jd_observables = obs_keys (cache_manager s),
          jd_ops_names = ops_names (cache_manager s),
          jd_ops_params = ops_params (cache_manager s),
          jd_ops_wires = ops_wires (cache_manager s),
          jd_ops_inverses = ops_inverses (cache_manager s),
          jd_trainable = (if tp_empty then all_params else trainParams)\<rparr>)"

text \<open>
  The loop that distributes the Jacobian, by recursion over the buffers from
  \<open>gradients[obs_idx]\<close> on; \<open>begin_loc\<close> is the offset of \<^verbatim>\<open>begin_loc_iter\<close> in the
  Jacobian. A buffer keeps its entries beyond the copied segment.
\<close>

fun Gradient_distribute ::
  "nat \<Rightarrow> real list \<Rightarrow> nat \<Rightarrow> real list list \<Rightarrow> error + real list list" where
  "Gradient_distribute num_train_params jacobian begin_loc [] = Inr []"
| "Gradient_distribute num_train_params jacobian begin_loc (g # gs) =
     (if begin_loc = length jacobian
      then Inl (AssertionFailure ''begin_loc_iter != jacobian.end()'')
      else if \<not> num_train_params \<le> length g
      then Inl (InvalidArity ''num_train_params <= gradients[obs_idx].size()'')
      else
        (case Gradient_distribute num_train_params jacobian (begin_loc + num_train_params) gs of
           Inl e \<Rightarrow> Inl e
         | Inr gs' \<Rightarrow>
             Inr ((take num_train_params (drop begin_loc jacobian) @ drop num_train_params g)
                    # gs')))"

text \<open>
  \<open>Gradient\<close> takes the caller's buffers and returns their new contents. The adjoint kernel
  is the parameter \<open>adjointJacobian\<close>: from the tape and the reference state it gives the
  value that it writes at each index of the Jacobian, which has \<open>jac_size\<close> entries.
  Resolving a recorded observable key fails when the registry has not issued the key
  (modelled from the spec, section 4.3: \<^verbatim>\<open>getObservable\<close> is not part of the source file).
\<close>

definition Gradient ::
  "(JacobianData \<Rightarrow> StateVectorT \<Rightarrow> nat \<Rightarrow> real) \<Rightarrow> real list list \<Rightarrow> nat list \<Rightarrow>
   LightningKokkosSimulator \<Rightarrow> error + real list list" where
  "Gradient adjointJacobian gradients trainParams s =
     (let num_observables = getNumObservables (cache_manager s);
          num_train_params = Gradient_num_train_params s trainParams;
          jac_size = Gradient_jac_size s trainParams
      in if jac_size = 0 then Inr gradients
         else if length gradients \<noteq> num_observables
         then Inl (InvalidArity ''Invalid number of pre-allocated gradients'')
         else if \<not> list_all (\<lambda>m. m = MeasurementsT_Expval) (obs_callees (cache_manager s))
         then Inl (UnsupportedMeasurement
                     ''Unsupported measurements to compute gradient; Adjoint differentiation method only supports expectation return type'')
         else if \<not> isValidObservables (obs_manager s) (obs_keys (cache_manager s))
         then Inl (InvalidObservableKey ''InvalidObservableKey'')
         else
           let tape = Gradient_tape s trainParams;
               jacobian = map (adjointJacobian tape (device_sv s)) [0..<jac_size]
           in Gradient_distribute num_train_params jacobian 0 gradients)"

section \<open>Tape recording\<close>

definition StartTapeRecording :: "LightningKokkosSimulator \<Rightarrow> error + LightningKokkosSimulator" where
  "StartTapeRecording s =
     (if tape_recording s then Inl (AlreadyRecording ''Cannot re-activate the cache manager'')
      else Inr (s\<lparr>tape_recording := True, cache_manager := Reset (cache_manager s)\<rparr>))"

definition StopTapeRecording :: "LightningKokkosSimulator \<Rightarrow> error + LightningKokkosSimulator" where
  "StopTapeRecording s =
     (if \<not> tape_recording s
      then Inl (NotRecording ''Cannot stop an already stopped cache manager'')
      else Inr (s\<lparr>tape_recording := False\<rparr>))"

definition CacheManagerInfo ::
  "LightningKokkosSimulator \<Rightarrow> nat \<times> nat \<times> nat \<times> string list \<times> ObsIdType list" where
  "CacheManagerInfo s =
     (getNumOperations (cache_manager s), getNumObservables (cache_manager s),
      getNumParams (cache_manager s), ops_names (cache_manager s), obs_keys (cache_manager s))"

text \<open>The tape holds no entry.\<close>

definition tape_empty :: "CacheManager \<Rightarrow> bool" where
  "tape_empty c \<longleftrightarrow>
     ops_names c = [] \<and> ops_params c = [] \<and> ops_wires c = [] \<and> ops_inverses c = [] \<and>
     obs_keys c = [] \<and> obs_callees c = []"

section \<open>Concrete inputs\<close>

text \<open>
  Stand-ins for the kernels of the state-vector library at concrete inputs. The gate
  kernel applies a bit flip (Pauli X) to the first wire it is given, whatever the name of
  the operation; the matrix kernel does the same for every matrix.
\<close>

definition flip_wire :: "nat \<Rightarrow> StateVectorT \<Rightarrow> StateVectorT" where
  "flip_wire w sv =
     (let stride = 2 ^ (sv_num_qubits sv - (1 + w))
      in sv\<lparr>data := map (\<lambda>i. data sv ! (if (i div stride) mod 2 = 0 then i + stride
                                          else i - stride))
                     [0..<length (data sv)]\<rparr>)"

definition flip_first_wire ::
  "string \<Rightarrow> nat list \<Rightarrow> bool \<Rightarrow> real list \<Rightarrow> StateVectorT \<Rightarrow> StateVectorT option" where
  "flip_first_wire name dev_wires inv_flag params sv =
     (case dev_wires of
        [] \<Rightarrow> None
      | w # _ \<Rightarrow> if w < sv_num_qubits sv then Some (flip_wire w sv) else None)"

definition flip_first_wire_matrix ::
  "complex list \<Rightarrow> nat list \<Rightarrow> bool \<Rightarrow> StateVectorT \<Rightarrow> StateVectorT option" where
  "flip_first_wire_matrix matrix dev_wires inv_flag sv =
     (case dev_wires of
        [] \<Rightarrow> None
      | w # _ \<Rightarrow> if w < sv_num_qubits sv then Some (flip_wire w sv) else None)"


text \<open>A gate table with a gate without parameters and a gate with one parameter.\<close>

definition two_gate_info :: "(string \<times> nat \<times> nat) list" where
  "two_gate_info = [(''PauliX'', 1, 0), (''RX'', 1, 1)]"

text \<open>A simulator with two allocated qubits in state \<open>|00>\<close>, one recorded operation, idle.\<close>

definition sim_two_qubits :: LightningKokkosSimulator where
  "sim_two_qubits =
     \<lparr>device_sv = \<lparr>sv_num_qubits = 2, data = [Some 1, Some 0, Some 0, Some 0]\<rparr>,
      qubit_manager = \<lparr>next_idx = 2, qubits_map = [0 \<mapsto> 0, 1 \<mapsto> 1]\<rparr>,
      cache_manager = \<lparr>ops_names = [''RX''], ops_params = [[1 / 2]], ops_wires = [[0]],
                       ops_inverses = [False], obs_keys = [], obs_callees = []\<rparr>,
      obs_manager = [0],
      tape_recording = False,
      device_shots = 0\<rparr>"

text \<open>
  Stand-ins for the measurement kernels. The probabilities are the exact marginals of the
  amplitudes, the first of the given wires being the most significant bit of the outcome
  and wire 0 the most significant bit of the amplitude index; the variants with shots
  return the same values. The sampler is exact on a computational basis state: every shot
  yields the bits of that basis state, wire 0 first. Expectation values and variances are
  not computed.
\<close>

definition wire_bit :: "nat \<Rightarrow> nat \<Rightarrow> nat \<Rightarrow> nat" where
  "wire_bit n i w = (i div 2 ^ (n - (1 + w))) mod 2"

definition outcome_of :: "nat \<Rightarrow> nat list \<Rightarrow> nat \<Rightarrow> nat" where
  "outcome_of n dev_wires i = foldl (\<lambda>acc w. 2 * acc + wire_bit n i w) 0 dev_wires"

definition amplitude_mass :: "complex option \<Rightarrow> real" where
  "amplitude_mass a = (case a of None \<Rightarrow> 0 | Some z \<Rightarrow> Re (z * cnj z))"

definition exact_probs :: "nat list \<Rightarrow> StateVectorT \<Rightarrow> real list" where
  "exact_probs dev_wires sv =
     map (\<lambda>j. sum_list (map (\<lambda>i. if outcome_of (sv_num_qubits sv) dev_wires i = j
                                   then amplitude_mass (data sv ! i) else 0)
                          [0..<length (data sv)]))
       [0..<2 ^ length dev_wires]"

definition basis_samples :: "nat \<Rightarrow> StateVectorT \<Rightarrow> nat list" where
  "basis_samples shots sv =
     (let i = length (takeWhile (\<lambda>a. a = Some 0) (data sv))
      in concat (replicate shots (map (wire_bit (sv_num_qubits sv) i) [0..<sv_num_qubits sv])))"

definition exact_measurements :: Measurements where
  "exact_measurements =
     \<lparr>m_expval = (\<lambda>obs sv. 0), m_expval_shots = (\<lambda>obs shots sv. 0),
      m_var = (\<lambda>obs sv. 0), m_var_shots = (\<lambda>obs shots sv. 0),
      m_probs = exact_probs, m_probs_shots = (\<lambda>dev_wires shots. exact_probs dev_wires),
      m_generate_samples = basis_samples\<rparr>"

text \<open>
  The simulator with two allocated qubits after a bit flip of the qubit on wire 0: the
  basis state in which wire 0 reads 1 and wire 1 reads 0.
\<close>

definition sim_wire0_flipped :: LightningKokkosSimulator where
  "sim_wire0_flipped =
     sim_two_qubits\<lparr>device_sv := \<lparr>sv_num_qubits = 2, data = [Some 0, Some 0, Some 1, Some 0]\<rparr>\<rparr>"

text \<open>
  Simulators with one allocated qubit, and the one after a bit flip (state \<open>|1>\<close>).
\<close>

definition sim_one_qubit :: "complex option list \<Rightarrow> LightningKokkosSimulator" where
  "sim_one_qubit amplitudes =
     \<lparr>device_sv = \<lparr>sv_num_qubits = 1, data = amplitudes\<rparr>,
      qubit_manager = \<lparr>next_idx = 1, qubits_map = [0 \<mapsto> 0]\<rparr>,
      cache_manager = \<lparr>ops_names = [], ops_params = [], ops_wires = [],
                       ops_inverses = [], obs_keys = [], obs_callees = []\<rparr>,
      obs_manager = [0],
      tape_recording = False,
      device_shots = 0\<rparr>"

definition sim_one_flipped :: LightningKokkosSimulator where
  "sim_one_flipped = sim_one_qubit [Some 0, Some 1]"

text \<open>
  The simulator with one qubit in a superposition with probability \<open>1/4\<close> for outcome 0
  and \<open>3/4\<close> for outcome 1.
\<close>

definition sim_one_quarter :: LightningKokkosSimulator where
  "sim_one_quarter = sim_one_qubit [Some (Complex (1 / 2) 0), Some (Complex (sqrt 3 / 2) 0)]"

text \<open>
  A stand-in for the adjoint kernel: it writes its index into every entry of the Jacobian,
  so that the origin of each copied value is visible.
\<close>

definition index_jacobian :: "JacobianData \<Rightarrow> StateVectorT \<Rightarrow> nat \<Rightarrow> real" where
  "index_jacobian tape ref_data i = real i"

text \<open>
  Tapes on the simulator with two qubits: its one-parameter operation followed by a
  variance of observable 0; the same with an expectation value; and two one-parameter
  operations followed by the expectation values of the observables 0 and 1.
\<close>

definition sim_var_tape :: LightningKokkosSimulator where
  "sim_var_tape =
     sim_two_qubits\<lparr>cache_manager := addObservable 0 MeasurementsT_Var (cache_manager sim_two_qubits)\<rparr>"

definition sim_expval_tape :: LightningKokkosSimulator where
  "sim_expval_tape =
     sim_two_qubits\<lparr>cache_manager := addObservable 0 MeasurementsT_Expval (cache_manager sim_two_qubits)\<rparr>"

definition sim_gradient_tape :: LightningKokkosSimulator where
  "sim_gradient_tape =
     sim_two_qubits
       \<lparr>cache_manager := \<lparr>ops_names = [''RX'', ''RX''], ops_params = [[1 / 2], [1 / 4]],
                          ops_wires = [[0], [1]], ops_inverses = [False, False],
                          obs_keys = [0, 1],
                          obs_callees = [MeasurementsT_Expval, MeasurementsT_Expval]\<rparr>,
        obs_manager := [0, 1]\<rparr>"

text \<open>
  The simulator with one qubit after StartTapeRecording and one variance measurement of
  observable 0.
\<close>

definition sim_one_var_recorded :: LightningKokkosSimulator where
  "sim_one_var_recorded =
     sim_one_flipped
       \<lparr>tape_recording := True,
        cache_manager := \<lparr>ops_names = [], ops_params = [], ops_wires = [], ops_inverses = [],
                          obs_keys = [0], obs_callees = [MeasurementsT_Var]\<rparr>\<rparr>"

text \<open>
  The simulator with one qubit after StartTapeRecording and one expectation value of
  observable 0: one recorded observable and no recorded parameter.
\<close>

definition sim_one_expval_recorded :: LightningKokkosSimulator where
  "sim_one_expval_recorded =
     sim_one_flipped
       \<lparr>tape_recording := True,
        cache_manager := \<lparr>ops_names = [], ops_params = [], ops_wires = [], ops_inverses = [],
                          obs_keys = [0], obs_callees = [MeasurementsT_Expval]\<rparr>\<rparr>"

text \<open>
  A second stand-in for the adjoint kernel, which shows what it was handed: the entry of
  the Jacobian for the observable at position \<open>o\<close> and the trainable parameter at
  position \<open>p\<close> of the list of trainable parameters, entry \<open>o * n + p\<close> for \<open>n\<close> trainable
  parameters, gets the value \<open>10 * o\<close> plus the index of that trainable parameter.
\<close>

definition labelled_jacobian :: "JacobianData \<Rightarrow> StateVectorT \<Rightarrow> nat \<Rightarrow> real" where
  "labelled_jacobian tape ref_data i =
     (let n = length (jd_trainable tape)
      in real (10 * (i div n) + jd_trainable tape ! (i mod n)))"

text \<open>
  A draw just above \<open>1/4\<close>: it is a \<^verbatim>\<open>double\<close>, and the nearest single-precision value is
  \<open>1/4\<close>.
\<close>

definition draw_above_quarter :: real where
  "draw_above_quarter = 1 / 4 + 1 / 2 ^ 30"

section \<open>Auxiliary facts\<close>

lemma upt_2: "[0..<2] = [0, Suc 0]" "[2..<3] = [2]"
  by (simp_all add: upt_conv_Cons)

lemma upt_4: "[0..<4] = [0, 1, 2, 3]"
  by (simp add: upt_conv_Cons)

lemma log2_power: "log2 (2 ^ n) = n"
proof (induction n)
  case 0
  show ?case by (simp add: log2.simps)
next
  case (Suc n)
  have "log2 (2 ^ Suc n) = Suc (log2 (2 ^ Suc n div 2))"
    by (subst log2.simps) simp
  with Suc show ?case by simp
qed

lemma getDeviceIds_error:
  "getDeviceIds qm qs = Inl e \<Longrightarrow> \<exists>msg. e = InvalidQubit msg"
  by (induction qs arbitrary: e) (auto simp: getDeviceId_def split: sum.splits option.splits)

lemma PartialProbs_cases:
  assumes "PartialProbs m n wires s = Inr probs"
  obtains dev_wires where "getDeviceWires s wires = Inr dev_wires" "length probs = n"
    "isValidQubits s wires" "length wires \<le> GetNumQubits s"
  using assms
  by (auto simp: PartialProbs_def Let_def split: if_splits sum.splits)

lemma PartialProbs_error:
  "PartialProbs m n wires s = Inl e \<Longrightarrow> e \<noteq> DegenerateRenormalization"
  by (auto simp: PartialProbs_def getDeviceWires_def Let_def split: if_splits sum.splits
      dest: getDeviceIds_error)

lemma one_qubit_facts:
  "GetNumQubits (sim_one_qubit amps) = Suc 0"
  "isValidQubits (sim_one_qubit amps) [0]"
  "getDeviceWires (sim_one_qubit amps) [0] = Inr [0]"
  "device_shots (sim_one_qubit amps) = 0"
  "device_sv (sim_one_qubit amps) = \<lparr>sv_num_qubits = Suc 0, data = amps\<rparr>"
  by (simp_all add: sim_one_qubit_def GetNumQubits_def getNumQubits_def isValidQubits_def
      isValidQubitId_def getDeviceWires_def getDeviceId_def)

lemma exact_probs_one_qubit:
  "exact_probs [0] \<lparr>sv_num_qubits = Suc 0, data = [Some a, Some b]\<rparr> =
     [Re (a * cnj a), Re (b * cnj b)]"
  by (simp add: exact_probs_def outcome_of_def wire_bit_def amplitude_mass_def upt_2)

lemma PartialProbs_one_qubit:
  "PartialProbs exact_measurements 2 [0] (sim_one_qubit [Some a, Some b]) =
     Inr [Re (a * cnj a), Re (b * cnj b)]"
  by (simp add: PartialProbs_def one_qubit_facts exact_measurements_def exact_probs_one_qubit)

lemma two_qubits_tape_facts:
  "getNumParams (cache_manager sim_two_qubits) = 1"
  "getNumObservables (addObservable k c (cache_manager sim_two_qubits)) = 1"
  "obs_callees (addObservable k c (cache_manager sim_two_qubits)) = [c]"
  by (simp_all add: sim_two_qubits_def getNumParams_def getNumObservables_def addObservable_def)

lemma getNumParams_addObservable: "getNumParams (addObservable k c cm) = getNumParams cm"
  by (simp add: getNumParams_def addObservable_def)

lemma Gradient_sizes:
  "Gradient_num_train_params s trainParams =
     (if trainParams = [] then length (concat (ops_params (cache_manager s)))
      else length trainParams)"
  "Gradient_jac_size s trainParams =
     ((if trainParams = [] then length (concat (ops_params (cache_manager s)))
       else length trainParams) * length (obs_keys (cache_manager s))) mod 2 ^ 64"
  "getNumObservables (cache_manager s) = length (obs_keys (cache_manager s))"
  "getNumParams (cache_manager s) = length (concat (ops_params (cache_manager s)))"
  by (simp_all add: Gradient_num_train_params_def Gradient_jac_size_def getNumParams_def
      getNumObservables_def length_concat size_t_range_def)

section \<open>Validation of named operations\<close>

text \<open>
  The two checks that reject a call: a parameter count that differs from the declared
  parameter arity, and an empty wire list for a gate of non-zero declared wire arity.
  The gate kernel is not consulted.
\<close>

lemma NamedOperation_arity_error:
  assumes "lookup_gates simulator_gate_info name = Inr (op_num_wires, op_num_params)"
    and "length params \<noteq> op_num_params \<or> (wires = [] \<and> op_num_wires \<noteq> 0)"
  shows "\<exists>msg. \<forall>applyOperation.
           NamedOperation simulator_gate_info applyOperation name params wires inv_flag s =
             Inl (InvalidArity msg)"
proof (cases "wires = [] \<and> op_num_wires \<noteq> 0")
  case True
  with assms(1) have "\<forall>applyOperation.
      NamedOperation simulator_gate_info applyOperation name params wires inv_flag s =
        Inl (InvalidArity ''Invalid number of qubits'')"
    by (simp add: NamedOperation_def)
  then show ?thesis ..
next
  case False
  with assms have "\<forall>applyOperation.
      NamedOperation simulator_gate_info applyOperation name params wires inv_flag s =
        Inl (InvalidArity ''Invalid number of parameters'')"
    by (auto simp: NamedOperation_def)
  then show ?thesis ..
qed

text \<open>
  Claim C1, evaluated on the code. For a gate name of the gate table, a wire list that is
  not empty and whose length differs from the declared wire arity passes the check of the
  number of qubits: with the declared number of parameters and allocated qubits the call
  does not fail with an arity error; it hands the operation, with all the translated
  wires, to the gate kernel, returns what the kernel returns, and records the operation
  when recording is active.
\<close>

theorem NamedOperation_wire_count_unchecked:
  assumes "lookup_gates simulator_gate_info name = Inr (op_num_wires, op_num_params)"
    and "wires \<noteq> []"
    and "length wires \<noteq> op_num_wires"
    and "length params = op_num_params"
    and "getDeviceWires s wires = Inr dev_wires"
  shows "NamedOperation simulator_gate_info applyOperation name params wires inv_flag s =
           (case applyOperation name dev_wires inv_flag params (device_sv s) of
              None \<Rightarrow> Inl KernelFailure
            | Some sv \<Rightarrow>
                Inr (s\<lparr>device_sv := sv,
                       cache_manager :=
                         (if tape_recording s
                          then addOperation name params dev_wires inv_flag (cache_manager s)
                          else cache_manager s)\<rparr>)) \<and>
         (\<forall>msg. NamedOperation simulator_gate_info applyOperation name params wires inv_flag s \<noteq>
                  Inl (InvalidArity msg))"
  using assms by (simp add: NamedOperation_def split: option.splits)

theorem NamedOperation_wire_count_unchecked_witness:
  "lookup_gates two_gate_info ''PauliX'' = Inr (1, 0) \<and>
   [0 :: int, 1] \<noteq> [] \<and>
   length [0 :: int, 1] \<noteq> 1 \<and>
   length ([] :: real list) = 0 \<and>
   getDeviceWires sim_two_qubits [0, 1] = Inr [0, 1] \<and>
   (\<forall>applyOperation.
      NamedOperation two_gate_info applyOperation ''PauliX'' [] [0, 1] False sim_two_qubits =
        (case applyOperation ''PauliX'' [0, 1] False [] (device_sv sim_two_qubits) of
           None \<Rightarrow> Inl KernelFailure
         | Some sv \<Rightarrow> Inr (sim_two_qubits\<lparr>device_sv := sv\<rparr>))) \<and>
   NamedOperation two_gate_info flip_first_wire ''PauliX'' [] [0, 1] False sim_two_qubits =
     Inr sim_wire0_flipped"
proof -
  have px: "lookup_gates two_gate_info ''PauliX'' = Inr (1, 0)"
    by (simp add: lookup_gates_def two_gate_info_def)
  have ne: "[0 :: int, 1] \<noteq> []" and ln: "length [0 :: int, 1] \<noteq> 1"
    and lp: "length ([] :: real list) = 0"
    by simp_all
  have dw: "getDeviceWires sim_two_qubits [0, 1] = Inr [0, 1]"
    by (simp add: getDeviceWires_def getDeviceId_def sim_two_qubits_def)
  have idle: "\<not> tape_recording sim_two_qubits" and same: "sim_two_qubits\<lparr>cache_manager := cache_manager sim_two_qubits\<rparr> = sim_two_qubits"
    by (simp_all add: sim_two_qubits_def)
  have gen: "NamedOperation two_gate_info applyOperation ''PauliX'' [] [0, 1] False sim_two_qubits =
        (case applyOperation ''PauliX'' [0, 1] False [] (device_sv sim_two_qubits) of
           None \<Rightarrow> Inl KernelFailure
         | Some sv \<Rightarrow> Inr (sim_two_qubits\<lparr>device_sv := sv\<rparr>))" for applyOperation
    using NamedOperation_wire_count_unchecked [OF px ne ln lp dw, of applyOperation False] idle
    by (simp split: option.splits)
  have k: "flip_first_wire ''PauliX'' [0, 1] False [] (device_sv sim_two_qubits) =
      Some \<lparr>sv_num_qubits = 2, data = [Some 0, Some 0, Some 1, Some 0]\<rparr>"
    by (simp add: flip_first_wire_def flip_wire_def sim_two_qubits_def upt_4)
  from gen [of flip_first_wire] k
  have run: "NamedOperation two_gate_info flip_first_wire ''PauliX'' [] [0, 1] False sim_two_qubits =
      Inr sim_wire0_flipped"
    by (simp add: sim_wire0_flipped_def)
  from px ne ln lp dw gen run show ?thesis by blast
qed

section \<open>Bit order of the histogram bins\<close>

text \<open>
  Claim C2, evaluated on the code. Two qubits are in the basis state in which wire 0
  reads 1 and wire 1 reads 0; its probability sits at index 2 of the probabilities, wire 0
  being the most significant bit there. One shot yields the bits 1, 0. The eigenvalue
  buffer is filled with 0, 1, 2, 3, but Counts and PartialCounts (wires 0, 1) increment
  bin 1, not bin 2: the bit of the first wire is stored at position 0 of the bitset,
  which is the least significant bit of the bin index.
\<close>

theorem Counts_first_wire_least_significant:
  "m_generate_samples exact_measurements 1 (device_sv sim_wire0_flipped) = [1, 0] \<and>
   m_probs exact_measurements [0, 1] (device_sv sim_wire0_flipped) = [0, 0, 1, 0] \<and>
   Counts exact_measurements [0, 0, 0, 0] [0, 0, 0, 0] 1 sim_wire0_flipped =
     Inr ([0, 1, 2, 3], [0, 1, 0, 0]) \<and>
   PartialCounts exact_measurements [0, 0, 0, 0] [0, 0, 0, 0] [0, 1] 1 sim_wire0_flipped =
     Inr ([0, 1, 2, 3], [0, 1, 0, 0])"
proof -
  have g: "m_generate_samples exact_measurements 1 (device_sv sim_wire0_flipped) = [1, 0]"
    by (simp add: exact_measurements_def basis_samples_def sim_wire0_flipped_def wire_bit_def
        upt_2)
  have p: "m_probs exact_measurements [0, 1] (device_sv sim_wire0_flipped) = [0, 0, 1, 0]"
    by (simp add: exact_measurements_def exact_probs_def outcome_of_def wire_bit_def
        amplitude_mass_def sim_wire0_flipped_def upt_4)
  from g have g': "m_generate_samples exact_measurements (Suc 0) (device_sv sim_wire0_flipped) = [1, 0]"
    by simp
  have n: "GetNumQubits sim_wire0_flipped = 2"
    by (simp add: GetNumQubits_def getNumQubits_def sim_wire0_flipped_def)
  have c: "Counts exact_measurements [0, 0, 0, 0] [0, 0, 0, 0] 1 sim_wire0_flipped =
     Inr ([0, 1, 2, 3], [0, 1, 0, 0])"
    by (simp add: Counts_def n g' count_shot_def upt_2 upt_4)
  have v: "isValidQubits sim_wire0_flipped [0, 1]"
    by (simp add: isValidQubits_def isValidQubitId_def sim_wire0_flipped_def sim_two_qubits_def)
  have d: "getDeviceWires sim_wire0_flipped [0, 1] = Inr [0, 1]"
    by (simp add: getDeviceWires_def getDeviceId_def sim_wire0_flipped_def sim_two_qubits_def)
  have pc: "PartialCounts exact_measurements [0, 0, 0, 0] [0, 0, 0, 0] [0, 1] 1 sim_wire0_flipped =
     Inr ([0, 1, 2, 3], [0, 1, 0, 0])"
    by (simp add: PartialCounts_def n g' v d count_shot_def upt_2 upt_4)
  from g p c pc show ?thesis by simp
qed

theorem Counts_first_wire_least_significant_witness:
  "length [0, 0, 0, 0 :: real] = 2 ^ GetNumQubits sim_wire0_flipped \<and>
   length [0, 0, 0, 0 :: int] = 2 ^ GetNumQubits sim_wire0_flipped \<and>
   isValidQubits sim_wire0_flipped [0, 1] \<and>
   map_sum id snd (Counts exact_measurements [0, 0, 0, 0] [0, 0, 0, 0] 1 sim_wire0_flipped) =
     Inr [0, 1, 0, 0] \<and>
   map_sum id snd
     (PartialCounts exact_measurements [0, 0, 0, 0] [0, 0, 0, 0] [0, 1] 1 sim_wire0_flipped) =
     Inr [0, 1, 0, 0]"
proof -
  have n: "GetNumQubits sim_wire0_flipped = 2"
    by (simp add: GetNumQubits_def getNumQubits_def sim_wire0_flipped_def)
  have v: "isValidQubits sim_wire0_flipped [0, 1]"
    by (simp add: isValidQubits_def isValidQubitId_def sim_wire0_flipped_def sim_two_qubits_def)
  from Counts_first_wire_least_significant n v show ?thesis by simp
qed

section \<open>Gradient and variance measurements\<close>

text \<open>
  Claim C3 (as amended). For every tape that holds at least one recorded observable use
  of kind Var, a call to Gradient whose Jacobian size is not zero and whose list of
  output buffers has as many entries as there are recorded observables fails with
  UnsupportedMeasurement.
\<close>

theorem Gradient_rejects_Var:
  assumes "MeasurementsT_Var \<in> set (obs_callees (cache_manager s))"
    and "Gradient_jac_size s trainParams \<noteq> 0"
    and "length gradients = getNumObservables (cache_manager s)"
  shows "Gradient adjointJacobian gradients trainParams s =
           Inl (UnsupportedMeasurement
                  ''Unsupported measurements to compute gradient; Adjoint differentiation method only supports expectation return type'')"
proof -
  from assms(1) have "\<not> list_all (\<lambda>m. m = MeasurementsT_Expval) (obs_callees (cache_manager s))"
    by (auto simp: list_all_iff)
  with assms(2,3) show ?thesis by (simp add: Gradient_def Let_def)
qed

theorem Gradient_rejects_Var_witness:
  "MeasurementsT_Var \<in> set (obs_callees (cache_manager sim_var_tape)) \<and>
   Gradient_jac_size sim_var_tape [] \<noteq> 0 \<and>
   length [[0 :: real]] = getNumObservables (cache_manager sim_var_tape) \<and>
   Gradient index_jacobian [[0]] [] sim_var_tape =
     Inl (UnsupportedMeasurement
            ''Unsupported measurements to compute gradient; Adjoint differentiation method only supports expectation return type'')"
proof -
  have a: "MeasurementsT_Var \<in> set (obs_callees (cache_manager sim_var_tape))"
    by (simp add: sim_var_tape_def two_qubits_tape_facts)
  have b: "Gradient_jac_size sim_var_tape [] \<noteq> 0"
    by (simp add: Gradient_jac_size_def Gradient_num_train_params_def sim_var_tape_def
        two_qubits_tape_facts getNumParams_addObservable size_t_range_def)
  have c: "length [[0 :: real]] = getNumObservables (cache_manager sim_var_tape)"
    by (simp add: sim_var_tape_def two_qubits_tape_facts)
  from Gradient_rejects_Var [OF a b c] a b c show ?thesis by blast
qed

text \<open>
  Without a recorded parameter the Jacobian size is zero and Gradient returns before it
  looks at the measurement kinds: start recording, measure one variance, request the
  gradient; the call succeeds and leaves the buffer as it was.
\<close>

theorem Gradient_Var_no_parameters_counterexample:
  "StartTapeRecording sim_one_flipped = Inr (sim_one_flipped\<lparr>tape_recording := True\<rparr>) \<and>
   Var exact_measurements 0 (sim_one_flipped\<lparr>tape_recording := True\<rparr>) =
     Inr (0, sim_one_var_recorded) \<and>
   obs_callees (cache_manager sim_one_var_recorded) = [MeasurementsT_Var] \<and>
   Gradient index_jacobian [[0]] [] sim_one_var_recorded = Inr [[0]]"
  by (simp add: StartTapeRecording_def Var_def Gradient_def Gradient_jac_size_def
      Gradient_num_train_params_def getNumParams_def getNumObservables_def
      sim_one_var_recorded_def sim_one_flipped_def sim_one_qubit_def Reset_def
      isValidObservables_def addObservable_def exact_measurements_def)

section \<open>Outcome of the collapse\<close>

lemma float_of_double_binade:
  assumes lo: "2 powr of_int e \<le> x" and hi: "x < 2 powr (of_int e + 1)" and e: "- 126 \<le> e"
  shows "float_of_double x =
           of_int (round_ties_even (x / 2 powr (of_int e - 23))) * 2 powr (of_int e - 23)"
proof -
  have "0 < (2 :: real) powr of_int e" by simp
  with lo have pos: "0 < x" by linarith
  from pos lo have "of_int e \<le> log 2 x" by (simp add: le_log_iff)
  moreover from pos hi have "log 2 x < of_int e + 1" by (simp add: log_less_iff)
  ultimately have "\<lfloor>log 2 x\<rfloor> = e" by (simp add: floor_unique)
  with pos e show ?thesis by (simp add: float_of_double_def Let_def)
qed

lemma float_of_double_quarter:
  "float_of_double (1 / 4) = 1 / 4"
  "float_of_double draw_above_quarter = 1 / 4"
  "float_of_double (1 / 2) = 1 / 2"
proof -
  have p: "(2 :: real) powr - 2 = 1 / 4" "(2 :: real) powr - 1 = 1 / 2"
    "(2 :: real) powr - 25 = 1 / 2 ^ 25" "(2 :: real) powr - 24 = 1 / 2 ^ 24"
    by (simp_all add: powr_neg_numeral powr_neg_one)
  show "float_of_double (1 / 4) = 1 / 4"
    by (subst float_of_double_binade [of "- 2"]) (simp_all add: p round_ties_even_def)
  show "float_of_double draw_above_quarter = 1 / 4"
    unfolding draw_above_quarter_def
    by (subst float_of_double_binade [of "- 2"]) (simp_all add: p round_ties_even_def)
  show "float_of_double (1 / 2) = 1 / 2"
    by (subst float_of_double_binade [of "- 1"]) (simp_all add: p round_ties_even_def)
qed

lemma PartialProbs_quarter:
  "PartialProbs exact_measurements 2 [0] sim_one_quarter = Inr [1 / 4, 3 / 4]"
  by (simp add: sim_one_quarter_def PartialProbs_one_qubit power2_eq_square [symmetric] power_divide)


lemma Measure_outcome:
  assumes "PartialProbs m 2 [wire] s = Inr probs"
  shows "\<exists>r s'. Measure m draw wire s = Inr (r, s') \<and>
           (r = One_Result \<longleftrightarrow> draw > probs ! 0) \<and>
           (r = Zero_Result \<longleftrightarrow> draw \<le> probs ! 0)"
  using assms
proof (cases rule: PartialProbs_cases)
  case (1 dev_wires)
  with assms show ?thesis
    by (auto simp: Measure_def Let_def One_Result_def Zero_Result_def)
qed

text \<open>
  Claim C4 (as amended). Whenever the marginal probabilities of the wire are obtained,
  Measure returns; its outcome is 1 exactly when the drawn value \<open>u\<close>, after its conversion
  to single precision, is greater than \<open>p0\<close>, the first of the two marginal
  probabilities, and 0 otherwise; when the converted value equals \<open>p0\<close>, the outcome is
  0.
\<close>

theorem Measure_drawn_outcome:
  assumes "PartialProbs m 2 [wire] s = Inr probs"
  shows "\<exists>r s'. Measure_drawn m u wire s = Inr (r, s') \<and>
           (r = One_Result \<longleftrightarrow> float_of_double u > probs ! 0) \<and>
           (r = Zero_Result \<longleftrightarrow> float_of_double u \<le> probs ! 0) \<and>
           (float_of_double u = probs ! 0 \<longrightarrow> r = Zero_Result)"
  using Measure_outcome [OF assms, of "float_of_double u"]
  by (auto simp: Measure_drawn_def)

theorem Measure_drawn_outcome_witness:
  "PartialProbs exact_measurements 2 [0] sim_one_quarter = Inr [1 / 4, 3 / 4] \<and>
   float_of_double (1 / 2) = 1 / 2 \<and>
   (\<exists>s'. Measure_drawn exact_measurements (1 / 2) 0 sim_one_quarter = Inr (One_Result, s')) \<and>
   float_of_double draw_above_quarter = 1 / 4 \<and>
   (\<exists>s'. Measure_drawn exact_measurements draw_above_quarter 0 sim_one_quarter =
           Inr (Zero_Result, s'))"
proof -
  note p = PartialProbs_quarter
  from Measure_drawn_outcome [OF p, of "1 / 2"]
  have hi: "\<exists>s'. Measure_drawn exact_measurements (1 / 2) 0 sim_one_quarter = Inr (One_Result, s')"
    by (auto simp: float_of_double_quarter)
  from Measure_drawn_outcome [OF p, of draw_above_quarter]
  have lo: "\<exists>s'. Measure_drawn exact_measurements draw_above_quarter 0 sim_one_quarter =
      Inr (Zero_Result, s')"
    by (auto simp: float_of_double_quarter)
  from p hi lo float_of_double_quarter show ?thesis by blast
qed

text \<open>
  The claim as stated fails in both of its parts. For one qubit with \<open>p0 = 1/4\<close>: in the
  tie case, the draw \<open>u = 1/4 = p0\<close>, the outcome is 0 and not 1; and for the draw
  \<open>u = 1/4 + 2 ^ -30\<close>, which is greater than \<open>p0\<close> and is converted to \<open>1/4\<close>, the
  outcome is 0 as well.
\<close>

theorem Measure_tie_counterexample:
  "PartialProbs exact_measurements 2 [0] sim_one_quarter = Inr [1 / 4, 3 / 4] \<and>
   map_sum id fst (Measure_drawn exact_measurements (1 / 4) 0 sim_one_quarter) = Inr Zero_Result \<and>
   1 / 4 < draw_above_quarter \<and>
   map_sum id fst (Measure_drawn exact_measurements draw_above_quarter 0 sim_one_quarter) =
     Inr Zero_Result \<and>
   Zero_Result \<noteq> One_Result"
proof -
  have d: "getDeviceWires sim_one_quarter [0] = Inr [0]"
    by (simp add: sim_one_quarter_def one_qubit_facts)
  have a: "1 / 4 < draw_above_quarter"
    by (simp add: draw_above_quarter_def)
  have r: "map_sum id fst (Measure_drawn exact_measurements (1 / 4) 0 sim_one_quarter) =
        Inr Zero_Result"
    "map_sum id fst (Measure_drawn exact_measurements draw_above_quarter 0 sim_one_quarter) =
        Inr Zero_Result"
    "Zero_Result \<noteq> One_Result"
    by (simp_all add: PartialProbs_quarter d Measure_drawn_def Measure_def Let_def
        float_of_double_quarter Zero_Result_def One_Result_def)
  from PartialProbs_quarter a r show ?thesis by blast
qed

section \<open>Renormalization after the collapse\<close>

lemma Measure_total_zero:
  "\<forall>a\<in>set st. a = Some 0 \<Longrightarrow> Measure_total st = Some 0"
proof -
  have "\<forall>a\<in>set st. a = Some 0 \<Longrightarrow>
        foldl (\<lambda>sum c. case (sum, c) of (Some t, Some z) \<Rightarrow> Some (t + Re (z * cnj z)) | _ \<Rightarrow> None)
          (Some 0) st = Some 0"
    by (induction st) simp_all
  then show "\<forall>a\<in>set st. a = Some 0 \<Longrightarrow> Measure_total st = Some 0"
    by (simp add: Measure_total_def)
qed

lemma Measure_divide_zero: "map (Measure_divide (Some 0)) st = replicate (length st) None"
  by (induction st) (simp_all add: Measure_divide_def split: option.splits)

lemma length_Measure_collapse: "length (Measure_collapse n w k st) = length st"
proof -
  have "length (foldl (\<lambda>st v. st[v := Some 0]) st vs) = length st" for vs
    by (induction vs arbitrary: st) simp_all
  then show ?thesis by (simp add: Measure_collapse_def)
qed

lemma Measure_error:
  "Measure m draw wire s = Inl e \<Longrightarrow> e \<noteq> DegenerateRenormalization"
  by (auto simp: Measure_def Let_def getDeviceWires_def getDeviceId_def
      split: sum.splits option.splits dest: PartialProbs_error)

lemma Measure_collapse_one_qubit:
  "Measure_collapse (Suc 0) 0 (Suc 0) [a, b] = [a, Some 0]"
  "Measure_collapse (Suc 0) 0 0 [a, b] = [Some 0, b]"
  by (simp_all add: Measure_collapse_def Measure_zeroed_def)

text \<open>
  Claim C5 (as amended). Measure has no guard on the norm: it never fails with
  DegenerateRenormalization, and when every amplitude is zero after zeroing the subspace
  orthogonal to the drawn outcome it divides the amplitudes by the zero norm and returns
  the drawn outcome, leaving a state vector whose amplitudes are all NaN.
\<close>

theorem Measure_divides_by_zero_norm:
  "Measure m draw wire s \<noteq> Inl DegenerateRenormalization \<and>
   (\<forall>probs w.
      PartialProbs m 2 [wire] s = Inr probs \<longrightarrow>
      getDeviceWires s [wire] = Inr [w] \<longrightarrow>
      (\<forall>a\<in>set (Measure_collapse (GetNumQubits s) w (if draw > probs ! 0 then 0 else 1)
                  (data (device_sv s))). a = Some 0) \<longrightarrow>
      Measure m draw wire s =
        Inr (if draw > probs ! 0 then One_Result else Zero_Result,
             s\<lparr>device_sv := StateVectorT_host (replicate (length (data (device_sv s))) None)
                              (2 ^ GetNumQubits s)\<rparr>))"
proof (intro conjI allI impI)
  show "Measure m draw wire s \<noteq> Inl DegenerateRenormalization"
    using Measure_error [of m draw wire s DegenerateRenormalization] by blast
next
  fix probs w
  assume p: "PartialProbs m 2 [wire] s = Inr probs"
    and d: "getDeviceWires s [wire] = Inr [w]"
    and z: "\<forall>a\<in>set (Measure_collapse (GetNumQubits s) w (if draw > probs ! 0 then 0 else 1)
                  (data (device_sv s))). a = Some 0"
  let ?st = "Measure_collapse (GetNumQubits s) w (if draw > probs ! 0 then 0 else 1)
               (data (device_sv s))"
  from Measure_total_zero [OF z] have t: "Measure_total ?st = Some 0" .
  have m: "map (Measure_divide (Some 0)) ?st = replicate (length (data (device_sv s))) None"
    by (simp add: Measure_divide_zero length_Measure_collapse)
  show "Measure m draw wire s =
        Inr (if draw > probs ! 0 then One_Result else Zero_Result,
             s\<lparr>device_sv := StateVectorT_host (replicate (length (data (device_sv s))) None)
                              (2 ^ GetNumQubits s)\<rparr>)"
  proof (cases "draw > probs ! 0")
    case True
    with t m show ?thesis by (simp add: Measure_def Let_def p d)
  next
    case False
    with t m show ?thesis by (simp add: Measure_def Let_def p d)
  qed
qed

theorem Measure_divides_by_zero_norm_witness:
  "PartialProbs exact_measurements 2 [0] sim_one_flipped = Inr [0, 1] \<and>
   getDeviceWires sim_one_flipped [0] = Inr [0] \<and>
   Measure_collapse (GetNumQubits sim_one_flipped) 0 1 (data (device_sv sim_one_flipped)) =
     [Some 0, Some 0] \<and>
   Measure exact_measurements 0 0 sim_one_flipped \<noteq> Inl DegenerateRenormalization \<and>
   Measure exact_measurements 0 0 sim_one_flipped =
     Inr (Zero_Result,
          sim_one_flipped\<lparr>device_sv := StateVectorT_host [None, None] 2\<rparr>)"
proof -
  have p: "PartialProbs exact_measurements 2 [0] sim_one_flipped = Inr [0, 1]"
    by (simp add: sim_one_flipped_def PartialProbs_one_qubit)
  have d: "getDeviceWires sim_one_flipped [0] = Inr [0]"
    by (simp add: sim_one_flipped_def one_qubit_facts)
  have c: "Measure_collapse (GetNumQubits sim_one_flipped) 0 1 (data (device_sv sim_one_flipped)) =
     [Some 0, Some 0]"
    by (simp add: sim_one_flipped_def one_qubit_facts Measure_collapse_one_qubit)
  have z: "\<forall>a\<in>set (Measure_collapse (GetNumQubits sim_one_flipped) 0
                      (if 0 > [0, 1 :: real] ! 0 then 0 else 1)
                      (data (device_sv sim_one_flipped))). a = Some 0"
    using c by simp
  from Measure_divides_by_zero_norm [of exact_measurements 0 0 sim_one_flipped] p d z
  have "Measure exact_measurements 0 0 sim_one_flipped \<noteq> Inl DegenerateRenormalization"
    and "Measure exact_measurements 0 0 sim_one_flipped =
        Inr (if 0 > [0, 1 :: real] ! 0 then One_Result else Zero_Result,
             sim_one_flipped\<lparr>device_sv :=
               StateVectorT_host (replicate (length (data (device_sv sim_one_flipped))) None)
                 (2 ^ GetNumQubits sim_one_flipped)\<rparr>)"
    by blast+
  then show ?thesis using p d c
    by (simp add: sim_one_flipped_def one_qubit_facts)
qed

text \<open>
  One qubit in state \<open>|1>\<close> with the draw 0: \<open>p0 = 0\<close>, the comparison \<open>0 > 0\<close> fails,
  the outcome is 0 and the only non-zero amplitude is zeroed. The call returns normally
  with a state vector of NaN amplitudes.
\<close>

theorem Measure_zero_mass_counterexample:
  "Measure exact_measurements 0 0 sim_one_flipped =
     Inr (Zero_Result,
          sim_one_flipped\<lparr>device_sv := \<lparr>sv_num_qubits = 1, data = [None, None]\<rparr>\<rparr>)"
proof -
  have p: "PartialProbs exact_measurements 2 [0] sim_one_flipped = Inr [0, 1]"
    by (simp add: sim_one_flipped_def PartialProbs_one_qubit)
  have l: "log2 2 = 1"
    using log2_power [of 1] by simp
  have l': "log2 (Suc (Suc 0)) = Suc 0"
    using l by (simp add: numeral_2_eq_2)
  show ?thesis
    by (simp add: Measure_def Let_def PartialProbs_one_qubit sim_one_flipped_def one_qubit_facts
        Measure_collapse_one_qubit Measure_total_def Measure_divide_def StateVectorT_host_def
        l l' Zero_Result_def)
qed

section \<open>Gradient and the number of output buffers\<close>

text \<open>
  Claim C6 (as amended). For every call to Gradient whose list of output buffers differs
  in length from the number of recorded observables: the call fails with InvalidArity
  when the Jacobian size, the \<^verbatim>\<open>size_t\<close> product of the number of trainable parameters and
  the number of recorded observables, is not zero; when it is zero, the call returns
  without failing and leaves the buffers as they are. The number of trainable parameters
  is the number of recorded parameters for an empty index list, and the length of the
  index list otherwise.
\<close>

theorem Gradient_buffer_count:
  assumes "length gradients \<noteq> length (obs_keys (cache_manager s))"
  shows "Gradient adjointJacobian gradients trainParams s =
           (if ((if trainParams = [] then length (concat (ops_params (cache_manager s)))
                 else length trainParams) * length (obs_keys (cache_manager s))) mod 2 ^ 64 = 0
            then Inr gradients
            else Inl (InvalidArity ''Invalid number of pre-allocated gradients''))"
proof -
  from assms have "length gradients \<noteq> getNumObservables (cache_manager s)"
    by (simp add: Gradient_sizes)
  then show ?thesis
    by (simp add: Gradient_def Let_def Gradient_sizes(2))
qed

theorem Gradient_buffer_count_witness:
  "length ([] :: real list list) \<noteq> length (obs_keys (cache_manager sim_expval_tape)) \<and>
   Gradient index_jacobian [] [] sim_expval_tape =
     Inl (InvalidArity ''Invalid number of pre-allocated gradients'') \<and>
   length [[0 :: real], [0]] \<noteq> length (obs_keys (cache_manager sim_expval_tape)) \<and>
   Gradient index_jacobian [[0], [0]] [0] sim_expval_tape =
     Inl (InvalidArity ''Invalid number of pre-allocated gradients'')"
proof -
  have k: "obs_keys (cache_manager sim_expval_tape) = [0]"
    "ops_params (cache_manager sim_expval_tape) = [[1 / 2]]"
    by (simp_all add: sim_expval_tape_def sim_two_qubits_def addObservable_def)
  have a: "length ([] :: real list list) \<noteq> length (obs_keys (cache_manager sim_expval_tape))"
    and b: "length [[0 :: real], [0]] \<noteq> length (obs_keys (cache_manager sim_expval_tape))"
    by (simp_all add: k)
  from Gradient_buffer_count [OF a, of index_jacobian "[]"]
  have r1: "Gradient index_jacobian [] [] sim_expval_tape =
     Inl (InvalidArity ''Invalid number of pre-allocated gradients'')"
    by (simp add: k)
  from Gradient_buffer_count [OF b, of index_jacobian "[0]"]
  have r2: "Gradient index_jacobian [[0], [0]] [0] sim_expval_tape =
     Inl (InvalidArity ''Invalid number of pre-allocated gradients'')"
    by (simp add: k)
  from a b r1 r2 show ?thesis by blast
qed

text \<open>
  The claim as stated fails outside the no-op on a tape without parameters and without
  observables. After one recorded expectation value and no recorded parameter, a call
  without any buffer returns without failing, although one observable is recorded. With a
  recorded parameter and no recorded observable, a call with one buffer returns without
  failing, with an explicit index list as with an empty one.
\<close>

theorem Gradient_zero_jacobian_counterexample:
  "getNumObservables (cache_manager sim_one_expval_recorded) = 1 \<and>
   getNumParams (cache_manager sim_one_expval_recorded) = 0 \<and>
   length ([] :: real list list) \<noteq> getNumObservables (cache_manager sim_one_expval_recorded) \<and>
   Gradient index_jacobian [] [] sim_one_expval_recorded = Inr [] \<and>
   getNumObservables (cache_manager sim_two_qubits) = 0 \<and>
   getNumParams (cache_manager sim_two_qubits) = 1 \<and>
   length [[0 :: real]] \<noteq> getNumObservables (cache_manager sim_two_qubits) \<and>
   Gradient index_jacobian [[0]] [0] sim_two_qubits = Inr [[0]] \<and>
   Gradient index_jacobian [[0]] [] sim_two_qubits = Inr [[0]]"
  by (simp add: Gradient_def Gradient_jac_size_def Gradient_num_train_params_def
      getNumParams_def getNumObservables_def sim_one_expval_recorded_def sim_one_flipped_def
      sim_one_qubit_def sim_two_qubits_def)

section \<open>Tape discipline\<close>

text \<open>
  Claim C7. StartTapeRecording fails (AlreadyRecording) whenever recording is already
  active, and otherwise switches to Recording and clears all tape entries, leaving the
  rest of the simulator as it was. StopTapeRecording fails (NotRecording) whenever
  recording is not active, and otherwise switches to Idle and keeps the tape entries.
\<close>

theorem tape_recording_discipline:
  "(tape_recording s \<longrightarrow>
      StartTapeRecording s = Inl (AlreadyRecording ''Cannot re-activate the cache manager'') \<and>
      (\<exists>s'. StopTapeRecording s = Inr s' \<and> \<not> tape_recording s' \<and>
            cache_manager s' = cache_manager s \<and> device_sv s' = device_sv s \<and>
            qubit_manager s' = qubit_manager s)) \<and>
   (\<not> tape_recording s \<longrightarrow>
      StopTapeRecording s = Inl (NotRecording ''Cannot stop an already stopped cache manager'') \<and>
      (\<exists>s'. StartTapeRecording s = Inr s' \<and> tape_recording s' \<and>
            tape_empty (cache_manager s') \<and> device_sv s' = device_sv s \<and>
            qubit_manager s' = qubit_manager s))"
  by (simp add: StartTapeRecording_def StopTapeRecording_def tape_empty_def Reset_def)

theorem tape_recording_discipline_witness:
  "\<not> tape_recording sim_two_qubits \<and>
   StopTapeRecording sim_two_qubits =
     Inl (NotRecording ''Cannot stop an already stopped cache manager'') \<and>
   (\<exists>s'. StartTapeRecording sim_two_qubits = Inr s' \<and> tape_recording s' \<and>
         tape_empty (cache_manager s') \<and>
         StartTapeRecording s' = Inl (AlreadyRecording ''Cannot re-activate the cache manager'') \<and>
         (\<exists>s''. StopTapeRecording s' = Inr s'' \<and> \<not> tape_recording s'' \<and>
                cache_manager s'' = cache_manager s'))"
proof -
  have idle: "\<not> tape_recording sim_two_qubits"
    by (simp add: sim_two_qubits_def)
  from tape_recording_discipline [of sim_two_qubits] idle
  obtain s' where stop: "StopTapeRecording sim_two_qubits =
        Inl (NotRecording ''Cannot stop an already stopped cache manager'')"
    and start: "StartTapeRecording sim_two_qubits = Inr s'"
    and rec: "tape_recording s'" and emp: "tape_empty (cache_manager s')"
    by blast
  from tape_recording_discipline [of s'] rec
  have "StartTapeRecording s' = Inl (AlreadyRecording ''Cannot re-activate the cache manager'') \<and>
        (\<exists>s''. StopTapeRecording s' = Inr s'' \<and> \<not> tape_recording s'' \<and>
               cache_manager s'' = cache_manager s')"
    by blast
  with idle stop start rec emp show ?thesis by blast
qed

section \<open>Qubit allocation and release\<close>












section \<open>Trainable parameters and distribution of the Jacobian\<close>

lemma Gradient_distribute_segments:
  assumes "\<forall>g\<in>set gs. ntp \<le> length g"
    and "begin_loc + ntp * length gs \<le> length jac"
    and "0 < ntp"
  shows "\<exists>gs'. Gradient_distribute ntp jac begin_loc gs = Inr gs' \<and> length gs' = length gs \<and>
           (\<forall>i<length gs. gs' ! i =
              take ntp (drop (begin_loc + i * ntp) jac) @ drop ntp (gs ! i))"
  using assms
proof (induction gs arbitrary: begin_loc)
  case Nil
  then show ?case by simp
next
  case (Cons g gs)
  from Cons.prems have ne: "begin_loc \<noteq> length jac" and gl: "ntp \<le> length g"
    and rest: "\<forall>g\<in>set gs. ntp \<le> length g"
    and bound: "(begin_loc + ntp) + ntp * length gs \<le> length jac"
    by (auto simp: algebra_simps)
  from Cons.IH [OF rest bound Cons.prems(3)]
  obtain gs' where r: "Gradient_distribute ntp jac (begin_loc + ntp) gs = Inr gs'"
    and l: "length gs' = length gs"
    and seg: "\<forall>i<length gs. gs' ! i =
                take ntp (drop (begin_loc + ntp + i * ntp) jac) @ drop ntp (gs ! i)"
    by blast
  let ?h = "take ntp (drop begin_loc jac) @ drop ntp g"
  from ne gl r have res: "Gradient_distribute ntp jac begin_loc (g # gs) = Inr (?h # gs')"
    by simp
  have "(?h # gs') ! i = take ntp (drop (begin_loc + i * ntp) jac) @ drop ntp ((g # gs) ! i)"
    if "i < length (g # gs)" for i
  proof (cases i)
    case 0
    then show ?thesis by simp
  next
    case (Suc j)
    with that have "j < length gs" by simp
    with seg have "gs' ! j = take ntp (drop (begin_loc + ntp + j * ntp) jac) @ drop ntp (gs ! j)"
      by blast
    with Suc show ?thesis by (simp add: add.assoc)
  qed
  with res l show ?case by simp
qed

lemma jacobian_segment:
  assumes "a + n \<le> m"
  shows "take n (drop a (map f [0..<m])) = map f [a..<a + n]"
proof -
  have "take n (drop a (map f [0..<m])) = map f (take n [a..<m])"
    by (simp add: drop_map take_map)
  also from assms have "take n [a..<m] = [a..<a + n]"
    by (simp add: take_upt)
  finally show ?thesis .
qed


lemma list_of_length_2: "length xs = 2 \<Longrightarrow> xs = [xs ! 0, xs ! 1]"
  by (cases xs; cases "tl xs") auto

lemma gradient_tape_fields:
  "ops_params (cache_manager sim_gradient_tape) = [[1 / 2], [1 / 4]]"
  "obs_keys (cache_manager sim_gradient_tape) = [0, 1]"
  "obs_callees (cache_manager sim_gradient_tape) = [MeasurementsT_Expval, MeasurementsT_Expval]"
  "obs_manager sim_gradient_tape = [0, 1]"
  "ops_names (cache_manager sim_gradient_tape) = [''RX'', ''RX'']"
  "ops_wires (cache_manager sim_gradient_tape) = [[0], [1]]"
  "ops_inverses (cache_manager sim_gradient_tape) = [False, False]"
  by (simp_all add: sim_gradient_tape_def)

text \<open>
  Claim C9. Let \<open>ntp\<close> be the number of trainable parameters: the number of parameters
  recorded on the tape when the list of trainable-parameter indices is empty, and the
  length of that list otherwise; let \<open>nobs\<close> be the number of recorded observables.
  When Gradient gets past its checks (\<open>ntp\<close> and \<open>nobs\<close> are not zero and their product
  does not wrap around \<^verbatim>\<open>size_t\<close>, there is one buffer for each recorded observable, every
  recorded measurement is an expectation value of a registered observable, and every
  buffer holds at least \<open>ntp\<close> entries), it returns. The adjoint kernel has been handed
  the recorded operations and observables with, as trainable parameters, the indices
  \<open>0, ..., numParams - 1\<close> of all recorded parameters in tape order when the index list is
  empty, and the index list itself otherwise. For each recorded observable, in order, the
  first \<open>ntp\<close> entries of its buffer are the contiguous segment of the flat Jacobian that
  starts at \<open>obs_idx * ntp\<close>; the rest of the buffer is unchanged.
\<close>

theorem Gradient_distribution:
  assumes ntp: "ntp = (if trainParams = [] then length (concat (ops_params (cache_manager s)))
                       else length trainParams)"
    and nobs: "nobs = length (obs_keys (cache_manager s))"
    and tape: "tape =
        \<lparr>jd_num_params = length (concat (ops_params (cache_manager s))),
         jd_state = data (device_sv s),
         jd_observables = obs_keys (cache_manager s),
         jd_ops_names = ops_names (cache_manager s),
         jd_ops_params = ops_params (cache_manager s),
         jd_ops_wires = ops_wires (cache_manager s),
         jd_ops_inverses = ops_inverses (cache_manager s),
         jd_trainable = (if trainParams = []
                         then [0..<length (concat (ops_params (cache_manager s)))]
                         else trainParams)\<rparr>"
    and pos: "0 < ntp" "0 < nobs"
    and nowrap: "ntp * nobs < 2 ^ 64"
    and len: "length gradients = nobs"
    and expv: "\<forall>m\<in>set (obs_callees (cache_manager s)). m = MeasurementsT_Expval"
    and valid: "\<forall>k\<in>set (obs_keys (cache_manager s)). k \<in> set (obs_manager s)"
    and bufs: "\<forall>g\<in>set gradients. ntp \<le> length g"
  shows "\<exists>gs'. Gradient adjointJacobian gradients trainParams s = Inr gs' \<and>
           length gs' = nobs \<and>
           (\<forall>obs_idx<nobs.
              take ntp (gs' ! obs_idx) =
                map (adjointJacobian tape (device_sv s)) [obs_idx * ntp..<obs_idx * ntp + ntp] \<and>
              drop ntp (gs' ! obs_idx) = drop ntp (gradients ! obs_idx))"
proof -
  let ?f = "adjointJacobian tape (device_sv s)"
  let ?jac = "map ?f [0..<ntp * nobs]"
  from ntp have nt: "Gradient_num_train_params s trainParams = ntp"
    by (simp add: Gradient_sizes)
  from nobs have no: "getNumObservables (cache_manager s) = nobs"
    by (simp add: Gradient_sizes)
  from ntp nobs nowrap have js: "Gradient_jac_size s trainParams = ntp * nobs"
    by (simp add: Gradient_sizes)
  from pos have nz: "ntp * nobs \<noteq> 0" by simp
  from tape have tp: "Gradient_tape s trainParams = tape"
    by (simp add: Gradient_tape_def Let_def Gradient_sizes)
  from len have bound: "0 + ntp * length gradients \<le> length ?jac" by simp
  from Gradient_distribute_segments [OF bufs bound pos(1)]
  obtain gs' where r: "Gradient_distribute ntp ?jac 0 gradients = Inr gs'"
    and l: "length gs' = length gradients"
    and seg: "\<forall>i<length gradients. gs' ! i =
                take ntp (drop (0 + i * ntp) ?jac) @ drop ntp (gradients ! i)"
    by blast
  from expv have ev: "list_all (\<lambda>m. m = MeasurementsT_Expval) (obs_callees (cache_manager s))"
    by (simp add: list_all_iff)
  from valid have vl: "isValidObservables (obs_manager s) (obs_keys (cache_manager s))"
    by (simp add: isValidObservables_def list_all_iff)
  from nz len ev vl r
  have run: "Gradient adjointJacobian gradients trainParams s = Inr gs'"
    by (simp add: Gradient_def Let_def nt no js tp)
  have "take ntp (gs' ! i) = map ?f [i * ntp..<i * ntp + ntp] \<and>
        drop ntp (gs' ! i) = drop ntp (gradients ! i)" if i: "i < nobs" for i
  proof -
    from i have "i * ntp + ntp \<le> ntp * nobs"
      by (metis Suc_leI mult.commute mult_Suc mult_le_mono2 add.commute)
    then have sg: "take ntp (drop (i * ntp) ?jac) = map ?f [i * ntp..<i * ntp + ntp]"
      by (rule jacobian_segment)
    from i len seg have g: "gs' ! i = take ntp (drop (i * ntp) ?jac) @ drop ntp (gradients ! i)"
      by simp
    have ln: "length (map ?f [i * ntp..<i * ntp + ntp]) = ntp" by simp
    from g sg have "gs' ! i = map ?f [i * ntp..<i * ntp + ntp] @ drop ntp (gradients ! i)"
      by simp
    with ln show ?thesis
      by (metis append_eq_conv_conj)
  qed
  with run l len show ?thesis by blast
qed


theorem Gradient_distribution_witness:
  "list_all (\<lambda>m. m = MeasurementsT_Expval) (obs_callees (cache_manager sim_gradient_tape)) \<and>
   list_all (\<lambda>k. k \<in> set (obs_manager sim_gradient_tape))
     (obs_keys (cache_manager sim_gradient_tape)) \<and>
   length (concat (ops_params (cache_manager sim_gradient_tape))) = 2 \<and>
   length (obs_keys (cache_manager sim_gradient_tape)) = 2 \<and>
   Gradient labelled_jacobian [[9, 9, 9], [9, 9]] [] sim_gradient_tape =
     Inr [[0, 1, 9], [10, 11]] \<and>
   Gradient labelled_jacobian [[9, 9, 9], [9, 9]] [1] sim_gradient_tape =
     Inr [[1, 9, 9], [11, 9]]"
proof -
  let ?s = sim_gradient_tape
  let ?gs = "[[9, 9, 9], [9, 9 :: real]]"
  let ?tape = "\<lambda>tr. \<lparr>jd_num_params = length (concat (ops_params (cache_manager ?s))),
         jd_state = data (device_sv ?s),
         jd_observables = obs_keys (cache_manager ?s),
         jd_ops_names = ops_names (cache_manager ?s),
         jd_ops_params = ops_params (cache_manager ?s),
         jd_ops_wires = ops_wires (cache_manager ?s),
         jd_ops_inverses = ops_inverses (cache_manager ?s),
         jd_trainable = tr\<rparr>"
  have np: "length (concat (ops_params (cache_manager ?s))) = 2"
    and no: "length (obs_keys (cache_manager ?s)) = 2"
    by (simp_all add: gradient_tape_fields)
  have expv: "\<forall>m\<in>set (obs_callees (cache_manager ?s)). m = MeasurementsT_Expval"
    and valid: "\<forall>k\<in>set (obs_keys (cache_manager ?s)). k \<in> set (obs_manager ?s)"
    by (simp_all add: gradient_tape_fields)
  have u: "[0..<2] = [0, 1 :: nat]" "[2..<4] = [2, 3 :: nat]" "[Suc 0..<2] = [1]"
    by (simp_all add: upt_conv_Cons)

  have ntp1: "(2 :: nat) = (if ([] :: nat list) = [] then length (concat (ops_params (cache_manager ?s)))
                   else length ([] :: nat list))"
    by (simp add: np)
  have tape1: "?tape [0, 1] = ?tape (if ([] :: nat list) = []
                         then [0..<length (concat (ops_params (cache_manager ?s)))]
                         else [])"
    by (simp add: np u)
  have bufs1: "\<forall>g\<in>set ?gs. (2 :: nat) \<le> length g" by simp
  from Gradient_distribution [OF ntp1 no [symmetric] tape1 _ _ _ _ expv valid bufs1,
      of labelled_jacobian]
  obtain gs1 where run1: "Gradient labelled_jacobian ?gs [] ?s = Inr gs1"
    and l1: "length gs1 = 2"
    and seg1: "\<forall>obs_idx<2.
        take 2 (gs1 ! obs_idx) =
          map (labelled_jacobian (?tape [0, 1]) (device_sv ?s)) [obs_idx * 2..<obs_idx * 2 + 2] \<and>
        drop 2 (gs1 ! obs_idx) = drop 2 (?gs ! obs_idx)"
    by auto
  define f1 where "f1 = labelled_jacobian (?tape [0, 1]) (device_sv ?s)"
  have v1: "f1 0 = 0" "f1 1 = 1" "f1 (Suc 0) = 1" "f1 2 = 10" "f1 3 = 11"
    by (simp_all add: f1_def labelled_jacobian_def Let_def Suc_1 flip: One_nat_def)
  note seg1' = seg1 [folded f1_def]
  from seg1' [rule_format, of 0] seg1' [rule_format, of 1]
  have "take 2 (gs1 ! 0) = [0, 1] \<and> drop 2 (gs1 ! 0) = [9] \<and>
      take 2 (gs1 ! 1) = [10, 11] \<and> drop 2 (gs1 ! 1) = []"
    by (simp add: u v1)
  then have "gs1 ! 0 = [0, 1, 9] \<and> gs1 ! 1 = [10, 11]"
    by (metis append_take_drop_id append_Cons append_Nil append_Nil2)
  with list_of_length_2 [OF l1] have g1: "gs1 = [[0, 1, 9], [10, 11]]" by simp

  have ntp2: "(1 :: nat) = (if [1 :: nat] = [] then length (concat (ops_params (cache_manager ?s)))
                   else length [1 :: nat])"
    by simp
  have tape2: "?tape [1] = ?tape (if [1 :: nat] = []
                         then [0..<length (concat (ops_params (cache_manager ?s)))]
                         else [1])"
    by simp
  have bufs2: "\<forall>g\<in>set ?gs. (1 :: nat) \<le> length g" by simp
  from Gradient_distribution [OF ntp2 no [symmetric] tape2 _ _ _ _ expv valid bufs2,
      of labelled_jacobian]
  obtain gs2 where run2: "Gradient labelled_jacobian ?gs [1] ?s = Inr gs2"
    and l2: "length gs2 = 2"
    and seg2: "\<forall>obs_idx<2.
        take 1 (gs2 ! obs_idx) =
          map (labelled_jacobian (?tape [1]) (device_sv ?s)) [obs_idx * 1..<obs_idx * 1 + 1] \<and>
        drop 1 (gs2 ! obs_idx) = drop 1 (?gs ! obs_idx)"
    by auto
  define f2 where "f2 = labelled_jacobian (?tape [1]) (device_sv ?s)"
  have v2: "f2 0 = 1" "f2 1 = 11" "f2 (Suc 0) = 11"
    by (simp_all add: f2_def labelled_jacobian_def Let_def)
  note seg2' = seg2 [folded f2_def]
  from seg2' [rule_format, of 0] seg2' [rule_format, of 1]
  have "take 1 (gs2 ! 0) = [1] \<and> drop 1 (gs2 ! 0) = [9, 9] \<and>
      take 1 (gs2 ! 1) = [11] \<and> drop 1 (gs2 ! 1) = [9]"
    by (simp add: u v2)
  then have "gs2 ! 0 = [1, 9, 9] \<and> gs2 ! 1 = [11, 9]"
    by (metis append_take_drop_id append_Cons append_Nil)
  with list_of_length_2 [OF l2] have g2: "gs2 = [[1, 9, 9], [11, 9]]" by simp

  from expv valid have "list_all (\<lambda>m. m = MeasurementsT_Expval) (obs_callees (cache_manager ?s))"
    "list_all (\<lambda>k. k \<in> set (obs_manager ?s)) (obs_keys (cache_manager ?s))"
    by (simp_all add: list_all_iff)
  with np no run1 g1 run2 g2 show ?thesis by simp
qed

section \<open>Matrix operations on the tape\<close>

lemma getNumParams_addOperation:
  "getNumParams (addOperation name params dev_wires inv_flag c) = getNumParams c + length params"
  by (simp add: getNumParams_def addOperation_def)

lemma MatrixOperation_cases:
  assumes "MatrixOperation applyMultiQubitOp matrix wires inv_flag s = Inr s'"
  obtains dev_wires sv where "wires \<noteq> []" "getDeviceWires s wires = Inr dev_wires"
    "applyMultiQubitOp matrix dev_wires inv_flag (device_sv s) = Some sv"
    "s' = s\<lparr>device_sv := sv,
            cache_manager := (if tape_recording s
                              then addOperation ''MatrixOp'' [] dev_wires inv_flag (cache_manager s)
                              else cache_manager s)\<rparr>"
  using assms
  by (auto simp: MatrixOperation_def split: if_splits sum.splits option.splits)

text \<open>
  Claim C10. Every MatrixOperation that is applied while recording is active appends
  exactly one tape entry, whose name is the fixed string "MatrixOp" and whose parameter
  list is empty (with the translated wires and the inverse flag); it records no
  observable. Whether recording is active or not, MatrixOperation leaves the parameter
  count of the tape as it was, and so the number of trainable parameters that a
  subsequent Gradient call with an empty index list uses.
\<close>

theorem MatrixOperation_tape_entry:
  assumes "MatrixOperation applyMultiQubitOp matrix wires inv_flag s = Inr s'"
  shows "getNumParams (cache_manager s') = getNumParams (cache_manager s) \<and>
         Gradient_num_train_params s' [] = Gradient_num_train_params s [] \<and>
         obs_keys (cache_manager s') = obs_keys (cache_manager s) \<and>
         obs_callees (cache_manager s') = obs_callees (cache_manager s) \<and>
         (tape_recording s \<longrightarrow>
            (\<exists>dev_wires. getDeviceWires s wires = Inr dev_wires \<and>
               ops_names (cache_manager s') = ops_names (cache_manager s) @ [''MatrixOp''] \<and>
               ops_params (cache_manager s') = ops_params (cache_manager s) @ [[]] \<and>
               ops_wires (cache_manager s') = ops_wires (cache_manager s) @ [dev_wires] \<and>
               ops_inverses (cache_manager s') = ops_inverses (cache_manager s) @ [inv_flag] \<and>
               getNumOperations (cache_manager s') = getNumOperations (cache_manager s) + 1)) \<and>
         (\<not> tape_recording s \<longrightarrow> cache_manager s' = cache_manager s)"
  using assms
proof (cases rule: MatrixOperation_cases)
  case (1 dev_wires sv)
  show ?thesis
  proof (cases "tape_recording s")
    case True
    with 1(4) have c: "cache_manager s' = addOperation ''MatrixOp'' [] dev_wires inv_flag (cache_manager s)"
      by simp
    have "getNumParams (cache_manager s') = getNumParams (cache_manager s)"
      by (simp add: c getNumParams_addOperation)
    moreover from this have "Gradient_num_train_params s' [] = Gradient_num_train_params s []"
      by (simp add: Gradient_num_train_params_def)
    ultimately show ?thesis using True 1(2)
      by (simp add: c addOperation_def getNumOperations_def)
  next
    case False
    with 1(4) have "cache_manager s' = cache_manager s" by simp
    with False show ?thesis by (simp add: Gradient_num_train_params_def)
  qed
qed

theorem MatrixOperation_tape_entry_witness:
  "tape_recording (sim_two_qubits\<lparr>tape_recording := True\<rparr>) \<and>
   MatrixOperation flip_first_wire_matrix [0, 1, 1, 0] [0] False
     (sim_two_qubits\<lparr>tape_recording := True\<rparr>) =
     Inr (sim_wire0_flipped
            \<lparr>tape_recording := True,
             cache_manager := \<lparr>ops_names = [''RX'', ''MatrixOp''], ops_params = [[1 / 2], []],
                               ops_wires = [[0], [0]], ops_inverses = [False, False],
                               obs_keys = [], obs_callees = []\<rparr>\<rparr>) \<and>
   getNumParams (cache_manager (sim_two_qubits\<lparr>tape_recording := True\<rparr>)) = 1 \<and>
   getNumParams \<lparr>ops_names = [''RX'', ''MatrixOp''], ops_params = [[1 / 2], []],
                 ops_wires = [[0], [0]], ops_inverses = [False, False],
                 obs_keys = [], obs_callees = []\<rparr> = 1"
proof -
  let ?s = "sim_two_qubits\<lparr>tape_recording := True\<rparr>"
  let ?c = "\<lparr>ops_names = [''RX'', ''MatrixOp''], ops_params = [[1 / 2], []],
             ops_wires = [[0], [0]], ops_inverses = [False, False],
             obs_keys = [], obs_callees = []\<rparr>"
  let ?s' = "sim_wire0_flipped\<lparr>tape_recording := True, cache_manager := ?c\<rparr>"
  have run: "MatrixOperation flip_first_wire_matrix [0, 1, 1, 0] [0] False ?s = Inr ?s'"
    by (simp add: MatrixOperation_def getDeviceWires_def getDeviceId_def
        flip_first_wire_matrix_def flip_wire_def sim_two_qubits_def sim_wire0_flipped_def
        addOperation_def upt_4)
  have one: "getNumParams (cache_manager ?s) = 1"
    by (simp add: getNumParams_def sim_two_qubits_def)
  from MatrixOperation_tape_entry [OF run]
  have "getNumParams (cache_manager ?s') = getNumParams (cache_manager ?s)" by blast
  with one have "getNumParams ?c = 1" by simp
  with run one show ?thesis by simp
qed

end
